theory Spec2Isabelle
  imports Main "HOL-Library.Word"
begin

unbundle bit_operations_syntax

section \<open>Sector storage: the local store\<close>

text \<open>
  Source: \<^verbatim>\<open>core/sector_storage/stores/impl/local_store.cpp\<close>.  The local store keeps a
  registry \<^verbatim>\<open>paths_\<close> from storage ids to file system paths and talks to three
  collaborators that are not part of that file: the sector index (\<^verbatim>\<open>index_\<close>, an
  interface), the local storage (\<^verbatim>\<open>storage_\<close>, asked for \<^verbatim>\<open>getStat\<close>) and the file
  system (boost::filesystem).  The index is kept as an interface: a record of operations
  over an index state of any type.  The file system is a small explicit model.
\<close>

subsection \<open>Errors\<close>

datatype StoreErrors =
    FindAndAllocate
  | NotFoundPath
  | NotFoundStorage
  | NotFoundSector
  | InvalidSectorName
  | InvalidStorageConfig
  | DuplicateStorage
  | CannotCreateDir
  | CannotMoveSector
  | CannotRemoveSector
  | RemoveSeveralFileTypes
  | CannotInitLogger

text \<open>
  An \<^verbatim>\<open>outcome::result\<close> carries an error code of any category.  The local store itself
  only ever creates \<open>StoreErrors\<close>; an error handed up by a collaborator through
  \<^verbatim>\<open>OUTCOME_TRY\<close> belongs to the collaborator's own category and is kept as a
  \<open>ForeignError\<close> with the collaborator's description of it.  An exception that
  nothing in the store catches leaves the operation; it is kept as \<open>Thrown\<close>.
\<close>

type_synonym foreign = string

datatype error = StoreError StoreErrors | ForeignError foreign | Thrown foreign

subsection \<open>Sector ids, file types and paths\<close>

type_synonym StorageID = string
type_synonym RegisteredProof = nat

record SectorId =
  miner :: "64 word"
  sector :: "64 word"

text \<open>
  Modelled from the spec: the declarations of \<^verbatim>\<open>primitives/sector_file\<close> are not under
  src/.  \<open>SectorFileType\<close> is the bit mask of the file types unsealed, sealed and cache,
  \<open>kSectorFileTypes\<close> lists the three single bits, \<open>toString\<close> gives the name of the
  per-type subdirectory, \<open>sectorName\<close> the file name \<^verbatim>\<open>s-t0<miner>-<sector>\<close>, and
  \<open>SectorPaths\<close> holds one string per file type, empty until set.
\<close>

type_synonym SectorFileType = "32 word"

definition FTNone :: SectorFileType where "FTNone = 0"
definition FTUnsealed :: SectorFileType where "FTUnsealed = 1"
definition FTSealed :: SectorFileType where "FTSealed = 2"
definition FTCache :: SectorFileType where "FTCache = 4"

definition kSectorFileTypes :: "SectorFileType list" where
  "kSectorFileTypes = [FTUnsealed, FTSealed, FTCache]"

definition toString :: "SectorFileType \<Rightarrow> string" where
  "toString t =
     (if t = FTUnsealed then ''unsealed''
      else if t = FTSealed then ''sealed''
      else if t = FTCache then ''cache''
      else '''')"

definition digit_char :: "nat \<Rightarrow> char" where
  "digit_char d = ''0123456789'' ! d"

fun to_string :: "nat \<Rightarrow> string" where
  "to_string n = (if n < 10 then [digit_char n] else to_string (n div 10) @ [digit_char (n mod 10)])"

declare to_string.simps [simp del]

definition sectorName :: "SectorId \<Rightarrow> string" where
  "sectorName sid = ''s-t0'' @ to_string (unat (miner sid)) @ ''-'' @ to_string (unat (sector sid))"

record SectorPaths =
  unsealed :: string
  sealed :: string
  cache :: string

definition no_paths :: SectorPaths where
  "no_paths = \<lparr>unsealed = '''', sealed = '''', cache = ''''\<rparr>"

definition setPathByType :: "SectorFileType \<Rightarrow> string \<Rightarrow> SectorPaths \<Rightarrow> SectorPaths" where
  "setPathByType t p sp =
     (if t = FTUnsealed then sp\<lparr>unsealed := p\<rparr>
      else if t = FTSealed then sp\<lparr>sealed := p\<rparr>
      else if t = FTCache then sp\<lparr>cache := p\<rparr>
      else sp)"

definition getPathByType :: "SectorPaths \<Rightarrow> SectorFileType \<Rightarrow> foreign + string" where
  "getPathByType sp t =
     (if t = FTUnsealed then Inr (unsealed sp)
      else if t = FTSealed then Inr (sealed sp)
      else if t = FTCache then Inr (cache sp)
      else Inl ''InvalidSectorFileType'')"

record AcquireSectorResponse =
  paths :: SectorPaths
  stores :: SectorPaths

text \<open>boost::filesystem's \<^verbatim>\<open>operator/=\<close>: a separator is added unless the left part is
  empty or already ends with one.\<close>

definition path_join :: "string \<Rightarrow> string \<Rightarrow> string" where
  "path_join a b = (if a = [] \<or> last a = CHR ''/'' then a @ b else a @ CHR ''/'' # b)"

definition sectorPath :: "string \<Rightarrow> SectorFileType \<Rightarrow> SectorId \<Rightarrow> string" where
  "sectorPath root_path t sid = path_join (path_join root_path (toString t)) (sectorName sid)"

subsection \<open>The sector index interface\<close>

record StorageInfo =
  id' :: StorageID
  urls :: "string list"
  weight :: nat
  can_seal :: bool
  can_store :: bool

record FsStat =
  capacity :: nat
  available :: nat
  used :: nat

text \<open>
  \<^verbatim>\<open>SectorIndex\<close> is an abstract class; the store holds a pointer to some implementation.
  Its operations are the fields of a record, over the implementation's state \<open>'ix\<close>.
  The two queries do not change the index.  Errors of the index are of its own category.
\<close>

record 'ix SectorIndex =
  storageAttach :: "StorageInfo \<Rightarrow> FsStat \<Rightarrow> 'ix \<Rightarrow> foreign + 'ix"
  storageDeclareSector :: "StorageID \<Rightarrow> SectorId \<Rightarrow> SectorFileType \<Rightarrow> 'ix \<Rightarrow> foreign + 'ix"
  storageDropSector :: "StorageID \<Rightarrow> SectorId \<Rightarrow> SectorFileType \<Rightarrow> 'ix \<Rightarrow> foreign + 'ix"
  storageFindSector :: "SectorId \<Rightarrow> SectorFileType \<Rightarrow> bool \<Rightarrow> 'ix \<Rightarrow> foreign + StorageInfo list"
  storageBestAlloc :: "SectorFileType \<Rightarrow> RegisteredProof \<Rightarrow> bool \<Rightarrow> 'ix \<Rightarrow> foreign + StorageInfo list"
  getStorageInfo :: "StorageID \<Rightarrow> 'ix \<Rightarrow> foreign + StorageInfo"

subsection \<open>The file system\<close>

record LocalStorageMeta =
  meta_id :: StorageID
  meta_weight :: nat
  meta_can_seal :: bool
  meta_can_store :: bool

text \<open>
  What \<^verbatim>\<open>openPath\<close> finds when it opens the meta file of a storage root: no readable
  file, a file that is not JSON, or a JSON document, which \<^verbatim>\<open>api::decode\<close> turns into a
  \<open>LocalStorageMeta\<close> or rejects.
\<close>

datatype MetaFile = NoFile | BadJson | Json "foreign + LocalStorageMeta"

text \<open>
  The file system: the meta file of every storage root, the existing directories with
  the names of their entries in iteration order, the answer of \<^verbatim>\<open>storage_->getStat\<close>
  for a path, and two oracles for the operations that the operating system may refuse:
  creating a directory, and renaming a file (across devices, for instance).
\<close>

record FileSystem =
  meta_file :: "string \<Rightarrow> MetaFile"
  dir_entries :: "string \<rightharpoonup> string list"
  getStat :: "string \<Rightarrow> foreign + FsStat"
  mkdir_ok :: "string \<Rightarrow> bool"
  rename_ok :: "string \<Rightarrow> string \<Rightarrow> bool"

text \<open>
  \<^verbatim>\<open>boost::filesystem::create_directories(p)\<close>, the overload without an error code:
  it answers false when the directory is there already, true when it has created it, and
  throws \<^verbatim>\<open>filesystem_error\<close> (\<open>Inl\<close>) when the system refuses.
\<close>

definition create_directories :: "string \<Rightarrow> FileSystem \<Rightarrow> foreign + bool \<times> FileSystem" where
  "create_directories p fs =
     (case dir_entries fs p of
        Some entries \<Rightarrow> Inr (False, fs)
      | None \<Rightarrow>
          if mkdir_ok fs p then Inr (True, fs\<lparr>dir_entries := (dir_entries fs)(p \<mapsto> [])\<rparr>)
          else Inl ''filesystem_error'')"

text \<open>A path is split at its last separator into the directory and the entry name.\<close>

definition parent_path :: "string \<Rightarrow> string" where
  "parent_path p = rev (drop 1 (dropWhile (\<lambda>c. c \<noteq> CHR ''/'') (rev p)))"

definition filename :: "string \<Rightarrow> string" where
  "filename p = rev (takeWhile (\<lambda>c. c \<noteq> CHR ''/'') (rev p))"

text \<open>
  \<^verbatim>\<open>boost::filesystem::rename(from, to, ec)\<close>: fails (\<open>None\<close>) when the source entry or
  the destination directory is missing or the system refuses; otherwise the entry moves
  and takes the place of an entry that has the new name already.
\<close>

definition rename :: "string \<Rightarrow> string \<Rightarrow> FileSystem \<Rightarrow> FileSystem option" where
  "rename src dst fs =
     (case dir_entries fs (parent_path src) of
        None \<Rightarrow> None
      | Some es \<Rightarrow>
          if filename src \<in> set es \<and> rename_ok fs src dst
          then (let d1 = (dir_entries fs)(parent_path src \<mapsto> remove1 (filename src) es)
                in case d1 (parent_path dst) of
                     None \<Rightarrow> None
                   | Some ds \<Rightarrow>
                       Some (fs\<lparr>dir_entries :=
                                 d1(parent_path dst \<mapsto>
                                      filter (\<lambda>n. n \<noteq> filename dst) ds @ [filename dst])\<rparr>))
          else None)"

subsection \<open>The store\<close>

text \<open>The members \<^verbatim>\<open>paths_\<close>, \<^verbatim>\<open>index_\<close> and \<^verbatim>\<open>urls_\<close>, and the disk the store works on.\<close>

record 'ix LocalStore =
  store_paths :: "StorageID \<rightharpoonup> string"
  store_index :: 'ix
  store_urls :: "string list"
  disk :: FileSystem

subsection \<open>acquireSector\<close>

text \<open>The inner loop of both passes: the first storage of the list that has a
  non-empty local path.\<close>

primrec first_local :: "(StorageID \<rightharpoonup> string) \<Rightarrow> StorageInfo list \<Rightarrow> (StorageInfo \<times> string) option" where
  "first_local ps [] = None"
| "first_local ps (info # rest) =
     (case ps (id' info) of
        None \<Rightarrow> first_local ps rest
      | Some p \<Rightarrow> if p = [] then first_local ps rest else Some (info, p))"

text \<open>One round of the first loop of \<^verbatim>\<open>acquireSectorWithoutLock\<close> (types to find).\<close>

definition acquire_existing ::
  "'ix SectorIndex \<Rightarrow> 'ix LocalStore \<Rightarrow> SectorId \<Rightarrow> SectorFileType \<Rightarrow>
   AcquireSectorResponse \<times> SectorFileType \<Rightarrow> AcquireSectorResponse \<times> SectorFileType" where
  "acquire_existing ops st sid t acc =
     (case acc of (result, existing) \<Rightarrow>
        if t AND existing = 0 then acc
        else (case storageFindSector ops sid t False (store_index st) of
                Inl e \<Rightarrow> acc
              | Inr infos \<Rightarrow>
                  (case first_local (store_paths st) infos of
                     None \<Rightarrow> acc
                   | Some (info, p) \<Rightarrow>
                       (result\<lparr>paths := setPathByType t (sectorPath p t sid) (paths result),
                               stores := setPathByType t (id' info) (stores result)\<rparr>,
                        existing XOR t))))"

text \<open>One round of the second loop (types to allocate); it is the only one that can fail.\<close>

definition acquire_allocate ::
  "'ix SectorIndex \<Rightarrow> 'ix LocalStore \<Rightarrow> SectorId \<Rightarrow> RegisteredProof \<Rightarrow> bool \<Rightarrow> SectorFileType \<Rightarrow>
   AcquireSectorResponse \<times> SectorFileType \<Rightarrow> error + AcquireSectorResponse \<times> SectorFileType" where
  "acquire_allocate ops st sid seal_proof_type sealing t acc =
     (case acc of (result, allocate) \<Rightarrow>
        if t AND allocate = 0 then Inr acc
        else (case storageBestAlloc ops t seal_proof_type sealing (store_index st) of
                Inl e \<Rightarrow> Inl (ForeignError e)
              | Inr infos \<Rightarrow>
                  (case (case first_local (store_paths st) infos of
                           None \<Rightarrow> ('''', '''')
                         | Some (info, p) \<Rightarrow> (sectorPath p t sid, id' info)) of
                     (best_path, best_storage) \<Rightarrow>
                       if best_path = [] then Inl (StoreError NotFoundPath)
                       else Inr (result\<lparr>paths := setPathByType t best_path (paths result),
                                        stores := setPathByType t best_storage (stores result)\<rparr>,
                                 allocate XOR t))))"

text \<open>A loop whose body may return early with an error.\<close>

primrec try_fold :: "('a \<Rightarrow> 'b \<Rightarrow> 'e + 'b) \<Rightarrow> 'a list \<Rightarrow> 'b \<Rightarrow> 'e + 'b" where
  "try_fold f [] acc = Inr acc"
| "try_fold f (x # xs) acc = (case f x acc of Inl e \<Rightarrow> Inl e | Inr acc' \<Rightarrow> try_fold f xs acc')"

definition acquireSectorWithoutLock ::
  "'ix SectorIndex \<Rightarrow> 'ix LocalStore \<Rightarrow> SectorId \<Rightarrow> RegisteredProof \<Rightarrow>
   SectorFileType \<Rightarrow> SectorFileType \<Rightarrow> bool \<Rightarrow> error + AcquireSectorResponse" where
  "acquireSectorWithoutLock ops st sid seal_proof_type existing allocate sealing =
     (case fold (acquire_existing ops st sid) kSectorFileTypes
             (\<lparr>paths = no_paths, stores = no_paths\<rparr>, existing) of
        (found, existing') \<Rightarrow>
          (case try_fold (acquire_allocate ops st sid seal_proof_type sealing) kSectorFileTypes
                  (found, allocate) of
             Inl e \<Rightarrow> Inl e
           | Inr (result, allocate') \<Rightarrow> Inr result))"

definition acquireSector ::
  "'ix SectorIndex \<Rightarrow> 'ix LocalStore \<Rightarrow> SectorId \<Rightarrow> RegisteredProof \<Rightarrow>
   SectorFileType \<Rightarrow> SectorFileType \<Rightarrow> bool \<Rightarrow> error + AcquireSectorResponse" where
  "acquireSector ops st sid seal_proof_type existing allocate sealing =
     (if (existing OR allocate) \<noteq> (existing XOR allocate) then Inl (StoreError FindAndAllocate)
      else acquireSectorWithoutLock ops st sid seal_proof_type existing allocate sealing)"

text \<open>The two answers of a response for one file type: the path and the storage.\<close>

definition path_of ::
  "AcquireSectorResponse \<Rightarrow> SectorFileType \<Rightarrow> (foreign + string) \<times> (foreign + string)" where
  "path_of r t = (getPathByType (paths r) t, getPathByType (stores r) t)"

text \<open>
  A type bit to allocate is unsatisfiable with error \<open>e\<close>: the index fails to list
  candidates and \<open>e\<close> is its error, or none of the candidates has a non-empty local path
  and \<open>e\<close> is \<open>NotFoundPath\<close>.
\<close>

definition unsatisfiable ::
  "'ix SectorIndex \<Rightarrow> 'ix LocalStore \<Rightarrow> RegisteredProof \<Rightarrow> bool \<Rightarrow> SectorFileType \<Rightarrow> error \<Rightarrow> bool" where
  "unsatisfiable ops st spt sealing u e =
     (case storageBestAlloc ops u spt sealing (store_index st) of
        Inl f \<Rightarrow> e = ForeignError f
      | Inr infos \<Rightarrow>
          e = StoreError NotFoundPath \<and>
          list_all (\<lambda>i. store_paths st (id' i) = None \<or> store_paths st (id' i) = Some []) infos)"

subsection \<open>parseSectorId\<close>

text \<open>
  \<^verbatim>\<open>std::regex_match\<close> against \<^verbatim>\<open>s-t0([0-9]+)-([0-9]+)\<close>: the whole name has to match.
  The digits do not contain the separator, so the two groups are determined.
\<close>

definition is_digit :: "char \<Rightarrow> bool" where
  "is_digit c = (c \<in> set ''0123456789'')"

definition regex_match :: "string \<Rightarrow> (string \<times> string) option" where
  "regex_match s =
     (if take 4 s = ''s-t0''
      then (case dropWhile is_digit (drop 4 s) of
              [] \<Rightarrow> None
            | c # n \<Rightarrow>
                if takeWhile is_digit (drop 4 s) \<noteq> [] \<and> c = CHR ''-'' \<and> n \<noteq> [] \<and> list_all is_digit n
                then Some (takeWhile is_digit (drop 4 s), n)
                else None)
      else None)"

definition decimal :: "string \<Rightarrow> nat" where
  "decimal ds = foldl (\<lambda>a c. 10 * a + (of_char c - 48)) 0 ds"

text \<open>\<^verbatim>\<open>boost::lexical_cast\<close> to a 64-bit unsigned integer throws \<^verbatim>\<open>bad_lexical_cast\<close>
  when the number does not fit.\<close>

definition lexical_cast :: "string \<Rightarrow> 64 word option" where
  "lexical_cast ds = (if decimal ds < 2 ^ 64 then Some (of_nat (decimal ds)) else None)"

definition parseSectorId :: "string \<Rightarrow> error + SectorId" where
  "parseSectorId name =
     (case regex_match name of
        None \<Rightarrow> Inl (StoreError InvalidSectorName)
      | Some (m, n) \<Rightarrow>
          (case lexical_cast m of
             None \<Rightarrow> Inl (StoreError InvalidSectorName)
           | Some mi \<Rightarrow>
               (case lexical_cast n of
                  None \<Rightarrow> Inl (StoreError InvalidSectorName)
                | Some se \<Rightarrow> Inr \<lparr>miner = mi, sector = se\<rparr>)))"

subsection \<open>openPath\<close>

text \<open>A loop over a list whose body changes the store and may return early with an
  error; the store is returned as the body left it.\<close>

primrec try_each ::
  "('a \<Rightarrow> 's \<Rightarrow> (error + unit) \<times> 's) \<Rightarrow> 'a list \<Rightarrow> 's \<Rightarrow> (error + unit) \<times> 's" where
  "try_each f [] s = (Inr (), s)"
| "try_each f (x # xs) s =
     (case f x s of
        (Inl e, s') \<Rightarrow> (Inl e, s')
      | (Inr u, s') \<Rightarrow> try_each f xs s')"

text \<open>The body of the directory iteration: parse the entry's name, declare the sector.\<close>

definition scan_entry ::
  "'ix SectorIndex \<Rightarrow> StorageID \<Rightarrow> SectorFileType \<Rightarrow> string \<Rightarrow> 'ix LocalStore \<Rightarrow>
   (error + unit) \<times> 'ix LocalStore" where
  "scan_entry ops storage t name st =
     (case parseSectorId name of
        Inl e \<Rightarrow> (Inl e, st)
      | Inr sid \<Rightarrow>
          (case storageDeclareSector ops storage sid t (store_index st) of
             Inl e \<Rightarrow> (Inl (ForeignError e), st)
           | Inr ix \<Rightarrow> (Inr (), st\<lparr>store_index := ix\<rparr>)))"

text \<open>The body of the loop over the file types: a missing subdirectory is created and
  not scanned, an existing one is scanned.  The exception of \<^verbatim>\<open>create_directories\<close> is
  not caught.\<close>

definition open_type ::
  "'ix SectorIndex \<Rightarrow> string \<Rightarrow> StorageID \<Rightarrow> SectorFileType \<Rightarrow> 'ix LocalStore \<Rightarrow>
   (error + unit) \<times> 'ix LocalStore" where
  "open_type ops root_path storage t st =
     (case dir_entries (disk st) (path_join root_path (toString t)) of
        None \<Rightarrow>
          (case create_directories (path_join root_path (toString t)) (disk st) of
             Inl e \<Rightarrow> (Inl (Thrown e), st)
           | Inr (created, fs) \<Rightarrow>
               if created then (Inr (), st\<lparr>disk := fs\<rparr>)
               else (Inl (StoreError CannotCreateDir), st\<lparr>disk := fs\<rparr>))
      | Some entries \<Rightarrow> try_each (scan_entry ops storage t) entries st)"

definition openPath ::
  "'ix SectorIndex \<Rightarrow> string \<Rightarrow> 'ix LocalStore \<Rightarrow> (error + unit) \<times> 'ix LocalStore" where
  "openPath ops path st =
     (case meta_file (disk st) path of
        NoFile \<Rightarrow> (Inl (StoreError InvalidStorageConfig), st)
      | BadJson \<Rightarrow> (Inl (StoreError InvalidStorageConfig), st)
      | Json decoded \<Rightarrow>
          (case decoded of
             Inl e \<Rightarrow> (Inl (ForeignError e), st)
           | Inr meta \<Rightarrow>
               if store_paths st (meta_id meta) \<noteq> None
               then (Inl (StoreError DuplicateStorage), st)
               else (case getStat (disk st) path of
                       Inl e \<Rightarrow> (Inl (ForeignError e), st)
                     | Inr stat \<Rightarrow>
                         (case storageAttach ops
                                 \<lparr>id' = meta_id meta, urls = store_urls st,
                                  weight = meta_weight meta, can_seal = meta_can_seal meta,
                                  can_store = meta_can_store meta\<rparr>
                                 stat (store_index st) of
                            Inl e \<Rightarrow> (Inl (ForeignError e), st)
                          | Inr ix \<Rightarrow>
                              (case try_each (open_type ops path (meta_id meta)) kSectorFileTypes
                                      (st\<lparr>store_index := ix\<rparr>) of
                                 (Inl e, st') \<Rightarrow> (Inl e, st')
                               | (Inr u, st') \<Rightarrow>
                                   (Inr (),
                                    st'\<lparr>store_paths := (store_paths st')(meta_id meta \<mapsto> path)\<rparr>))))))"

subsection \<open>moveStorage\<close>

text \<open>The body of the loop over the file types.  The source declaration is dropped
  before the rename, the destination is declared after it.\<close>

definition move_type ::
  "'ix SectorIndex \<Rightarrow> SectorId \<Rightarrow> SectorFileType \<Rightarrow> AcquireSectorResponse \<Rightarrow>
   AcquireSectorResponse \<Rightarrow> SectorFileType \<Rightarrow> 'ix LocalStore \<Rightarrow> (error + unit) \<times> 'ix LocalStore" where
  "move_type ops sid types dest src t st =
     (if types AND t = 0 then (Inr (), st)
      else
       (case getPathByType (stores src) t of
          Inl e \<Rightarrow> (Inl (ForeignError e), st)
        | Inr source_storage_id \<Rightarrow>
       (case getStorageInfo ops source_storage_id (store_index st) of
          Inl e \<Rightarrow> (Inl (ForeignError e), st)
        | Inr sst \<Rightarrow>
       (case getPathByType (stores dest) t of
          Inl e \<Rightarrow> (Inl (ForeignError e), st)
        | Inr dest_storage_id \<Rightarrow>
       (case getStorageInfo ops dest_storage_id (store_index st) of
          Inl e \<Rightarrow> (Inl (ForeignError e), st)
        | Inr dst \<Rightarrow>
       (if id' sst = id' dst then (Inr (), st)
        else if can_store sst then (Inr (), st)
        else
       (case storageDropSector ops source_storage_id sid t (store_index st) of
          Inl e \<Rightarrow> (Inl (ForeignError e), st)
        | Inr dropped \<Rightarrow>
       (case getPathByType (paths src) t of
          Inl e \<Rightarrow> (Inl (ForeignError e), st\<lparr>store_index := dropped\<rparr>)
        | Inr source_path \<Rightarrow>
       (case getPathByType (paths dest) t of
          Inl e \<Rightarrow> (Inl (ForeignError e), st\<lparr>store_index := dropped\<rparr>)
        | Inr dest_path \<Rightarrow>
       (case rename source_path dest_path (disk st) of
          None \<Rightarrow> (Inl (StoreError CannotMoveSector), st\<lparr>store_index := dropped\<rparr>)
        | Some fs \<Rightarrow>
       (case storageDeclareSector ops dest_storage_id sid t dropped of
          Inl e \<Rightarrow> (Inl (ForeignError e), st\<lparr>store_index := dropped, disk := fs\<rparr>)
        | Inr moved \<Rightarrow> (Inr (), st\<lparr>store_index := moved, disk := fs\<rparr>))))))))))))"

definition moveStorage ::
  "'ix SectorIndex \<Rightarrow> SectorId \<Rightarrow> RegisteredProof \<Rightarrow> SectorFileType \<Rightarrow> 'ix LocalStore \<Rightarrow>
   (error + unit) \<times> 'ix LocalStore" where
  "moveStorage ops sid seal_proof_type types st =
     (case acquireSectorWithoutLock ops st sid seal_proof_type FTNone types False of
        Inl e \<Rightarrow> (Inl e, st)
      | Inr dest \<Rightarrow>
          (case acquireSectorWithoutLock ops st sid seal_proof_type types FTNone False of
             Inl e \<Rightarrow> (Inl e, st)
           | Inr src \<Rightarrow> try_each (move_type ops sid types dest src) kSectorFileTypes st))"

subsection \<open>An index implementation\<close>

text \<open>
  Modelled from the spec: the index implementation is not under src/.  The index holds the
  attached storages with their capacity and the declared triples of storage, sector and
  file type.  \<open>storageAttach\<close> registers a storage, \<open>storageDeclareSector\<close> records
  presence, \<open>storageDropSector\<close> removes the record, \<open>storageFindSector\<close> lists every
  storage holding the file and \<open>storageBestAlloc\<close> the candidates, both with the best
  weight first; the candidates are filtered by the \<open>can_seal\<close> flag and by the free space
  the proof type needs, a table that is a parameter here.
\<close>

record IndexState =
  attached :: "(StorageInfo \<times> FsStat) list"
  declared :: "(StorageID \<times> SectorId \<times> SectorFileType) list"

definition by_weight :: "StorageInfo list \<Rightarrow> StorageInfo list" where
  "by_weight infos = rev (sort_key weight infos)"

definition impl_attach :: "StorageInfo \<Rightarrow> FsStat \<Rightarrow> IndexState \<Rightarrow> foreign + IndexState" where
  "impl_attach info stat ix =
     Inr (ix\<lparr>attached := (info, stat) # filter (\<lambda>e. id' (fst e) \<noteq> id' info) (attached ix)\<rparr>)"

definition impl_declare ::
  "StorageID \<Rightarrow> SectorId \<Rightarrow> SectorFileType \<Rightarrow> IndexState \<Rightarrow> foreign + IndexState" where
  "impl_declare storage sid t ix = Inr (ix\<lparr>declared := List.insert (storage, sid, t) (declared ix)\<rparr>)"

definition impl_drop ::
  "StorageID \<Rightarrow> SectorId \<Rightarrow> SectorFileType \<Rightarrow> IndexState \<Rightarrow> foreign + IndexState" where
  "impl_drop storage sid t ix = Inr (ix\<lparr>declared := removeAll (storage, sid, t) (declared ix)\<rparr>)"

definition impl_find ::
  "SectorId \<Rightarrow> SectorFileType \<Rightarrow> bool \<Rightarrow> IndexState \<Rightarrow> foreign + StorageInfo list" where
  "impl_find sid t allow_fetch ix =
     Inr (by_weight (filter (\<lambda>info. (id' info, sid, t) \<in> set (declared ix)) (map fst (attached ix))))"

definition impl_best_alloc ::
  "(SectorFileType \<Rightarrow> RegisteredProof \<Rightarrow> nat) \<Rightarrow>
   SectorFileType \<Rightarrow> RegisteredProof \<Rightarrow> bool \<Rightarrow> IndexState \<Rightarrow> foreign + StorageInfo list" where
  "impl_best_alloc space t seal_proof_type sealing ix =
     Inr (by_weight (map fst (filter
            (\<lambda>e. (if sealing then can_seal (fst e) else True) \<and> space t seal_proof_type \<le> available (snd e))
            (attached ix))))"

definition impl_info :: "StorageID \<Rightarrow> IndexState \<Rightarrow> foreign + StorageInfo" where
  "impl_info storage ix =
     (case find (\<lambda>e. id' (fst e) = storage) (attached ix) of
        None \<Rightarrow> Inl ''StorageNotFound''
      | Some e \<Rightarrow> Inr (fst e))"

definition SectorIndexImpl :: "(SectorFileType \<Rightarrow> RegisteredProof \<Rightarrow> nat) \<Rightarrow> IndexState SectorIndex" where
  "SectorIndexImpl space =
     \<lparr>storageAttach = impl_attach,
      storageDeclareSector = impl_declare,
      storageDropSector = impl_drop,
      storageFindSector = impl_find,
      storageBestAlloc = impl_best_alloc space,
      getStorageInfo = impl_info\<rparr>"

section \<open>Storage market: the provider\<close>

text \<open>
  Source: \<^verbatim>\<open>core/markets/storage/provider/provider.cpp\<close>.  The provider keeps the deals
  it negotiates in \<^verbatim>\<open>local_deals_\<close>, by proposal CID, and drives each of them with a
  finite state machine whose transition table is \<^verbatim>\<open>makeFSMTransitions\<close>.
\<close>

subsection \<open>Deals\<close>

type_synonym CID = string
type_synonym Address = string
type_synonym PeerInfo = string
type_synonym TokenAmount = int
type_synonym ChainEpoch = int
type_synonym Buffer = "8 word list"

text \<open>
  Modelled from the spec: the declarations of the deal protocol (the deal status, the
  proposal, the deal record, the transfer types) are not under src/.  The states are the
  shared state set of the two roles; the terminal ones are completed, error, expired,
  slashed and rejected.
\<close>

datatype StorageDealStatus =
    STORAGE_DEAL_UNKNOWN
  | STORAGE_DEAL_PROPOSAL_ACCEPTED
  | STORAGE_DEAL_VALIDATING
  | STORAGE_DEAL_ACCEPT_WAIT
  | STORAGE_DEAL_START_DATA_TRANSFER
  | STORAGE_DEAL_TRANSFERRING
  | STORAGE_DEAL_WAITING_FOR_DATA
  | STORAGE_DEAL_VERIFY_DATA
  | STORAGE_DEAL_ENSURE_PROVIDER_FUNDS
  | STORAGE_DEAL_PROVIDER_FUNDING
  | STORAGE_DEAL_CLIENT_FUNDING
  | STORAGE_DEAL_ENSURE_CLIENT_FUNDS
  | STORAGE_DEAL_PUBLISH
  | STORAGE_DEAL_PUBLISHING
  | STORAGE_DEAL_STAGED
  | STORAGE_DEAL_SEALING
  | STORAGE_DEAL_FINALIZING
  | STORAGE_DEAL_ACTIVE
  | STORAGE_DEAL_EXPIRED
  | STORAGE_DEAL_COMPLETED
  | STORAGE_DEAL_FAILING
  | STORAGE_DEAL_ERROR
  | STORAGE_DEAL_SLASHED
  | STORAGE_DEAL_REJECTING
  | STORAGE_DEAL_REJECTED

definition all_states :: "StorageDealStatus list" where
  "all_states =
     [STORAGE_DEAL_UNKNOWN, STORAGE_DEAL_PROPOSAL_ACCEPTED, STORAGE_DEAL_VALIDATING,
      STORAGE_DEAL_ACCEPT_WAIT, STORAGE_DEAL_START_DATA_TRANSFER, STORAGE_DEAL_TRANSFERRING,
      STORAGE_DEAL_WAITING_FOR_DATA, STORAGE_DEAL_VERIFY_DATA, STORAGE_DEAL_ENSURE_PROVIDER_FUNDS,
      STORAGE_DEAL_PROVIDER_FUNDING, STORAGE_DEAL_CLIENT_FUNDING, STORAGE_DEAL_ENSURE_CLIENT_FUNDS,
      STORAGE_DEAL_PUBLISH, STORAGE_DEAL_PUBLISHING, STORAGE_DEAL_STAGED, STORAGE_DEAL_SEALING,
      STORAGE_DEAL_FINALIZING, STORAGE_DEAL_ACTIVE, STORAGE_DEAL_EXPIRED, STORAGE_DEAL_COMPLETED,
      STORAGE_DEAL_FAILING, STORAGE_DEAL_ERROR, STORAGE_DEAL_SLASHED, STORAGE_DEAL_REJECTING,
      STORAGE_DEAL_REJECTED]"

definition terminal_states :: "StorageDealStatus list" where
  "terminal_states =
     [STORAGE_DEAL_COMPLETED, STORAGE_DEAL_ERROR, STORAGE_DEAL_EXPIRED, STORAGE_DEAL_SLASHED,
      STORAGE_DEAL_REJECTED]"

definition is_terminal :: "StorageDealStatus \<Rightarrow> bool" where
  "is_terminal s = (s \<in> set terminal_states)"

record DealProposal =
  piece_cid :: CID
  piece_size :: nat
  verified :: bool
  client :: Address
  provider :: Address
  start_epoch :: ChainEpoch
  end_epoch :: ChainEpoch
  storage_price_per_epoch :: TokenAmount
  provider_collateral :: TokenAmount
  client_collateral :: TokenAmount

record ClientDealProposal =
  proposal :: DealProposal
  client_signature :: string

record DataRef =
  transfer_type :: string
  root :: CID
  ref_piece_cid :: "CID option"

definition kTransferTypeManual :: string where
  "kTransferTypeManual = ''manual''"

record MinerDeal =
  client_deal_proposal :: ClientDealProposal
  proposal_cid :: CID
  add_funds_cid :: "CID option"
  miner_peer :: PeerInfo
  client_peer :: PeerInfo
  state :: StorageDealStatus
  piece_path :: string
  metadata_path :: string
  connection_closed :: bool
  message :: string
  ref :: DataRef
  deal_id :: nat

text \<open>What a client sends on a deal stream.\<close>

record Proposal =
  deal_proposal :: ClientDealProposal
  piece :: DataRef

subsection \<open>Errors and collaborators\<close>

datatype StorageMarketProviderError = LOCAL_DEAL_NOT_FOUND | PIECE_CID_DOESNT_MATCH

datatype market_error = ProviderError StorageMarketProviderError | NodeError foreign

text \<open>
  The node API, the piece IO and the CID of a proposal are collaborators; the provider
  reaches them through pointers it is constructed with.  They are the fields of an
  environment, together with the registered proof of the provider.
\<close>

type_synonym Tipset = nat
type_synonym TipsetKey = nat

record MinerInfo =
  owner :: Address
  worker :: Address

record ProviderEnv =
  registered_proof :: RegisteredProof
  host_peer_info :: PeerInfo
  ChainHead :: "foreign + Tipset"
  makeKey :: "Tipset \<Rightarrow> foreign + TipsetKey"
  StateMinerInfo :: "Address \<Rightarrow> TipsetKey \<Rightarrow> foreign + MinerInfo"
  MarketEnsureAvailable :: "Address \<Rightarrow> Address \<Rightarrow> TokenAmount \<Rightarrow> TipsetKey \<Rightarrow> foreign + CID option"
  generatePieceCommitment :: "RegisteredProof \<Rightarrow> Buffer \<Rightarrow> foreign + CID \<times> nat"
  getProposalCid :: "ClientDealProposal \<Rightarrow> foreign + CID"

subsection \<open>The state machine\<close>

datatype ProviderEvent =
    ProviderEventOpen
  | ProviderEventNodeErrored
  | ProviderEventDealRejected
  | ProviderEventDealAccepted
  | ProviderEventWaitingForManualData
  | ProviderEventInsufficientFunds
  | ProviderEventFundingInitiated
  | ProviderEventFunded
  | ProviderEventDataTransferFailed
  | ProviderEventDataTransferInitiated
  | ProviderEventDataTransferCompleted
  | ProviderEventManualDataReceived
  | ProviderEventGeneratePieceCIDFailed
  | ProviderEventVerifiedData
  | ProviderEventSendResponseFailed
  | ProviderEventDealPublishInitiated
  | ProviderEventDealPublished
  | ProviderEventDealPublishError
  | ProviderEventFileStoreErrored
  | ProviderEventDealHandoffFailed
  | ProviderEventDealHandedOff
  | ProviderEventDealActivationFailed
  | ProviderEventUnableToLocatePiece
  | ProviderEventDealActivated
  | ProviderEventPieceStoreErrored
  | ProviderEventReadMetadataErrored
  | ProviderEventDealCompleted
  | ProviderEventFailed

text \<open>
  An action receives the deal, the event and the two states; it may change the deal and
  send further events to the machine.  It returns the deal and the events it has sent.
\<close>

type_synonym ProviderAction =
  "ProviderEnv \<Rightarrow> MinerDeal \<Rightarrow> ProviderEvent \<Rightarrow> StorageDealStatus \<Rightarrow> StorageDealStatus \<Rightarrow>
   MinerDeal \<times> ProviderEvent list"

datatype from_states = From "StorageDealStatus list" | FromAny

record ProviderTransition =
  on_event :: ProviderEvent
  from_set :: from_states
  to_state :: StorageDealStatus
  action :: ProviderAction

definition transition ::
  "ProviderEvent \<Rightarrow> from_states \<Rightarrow> StorageDealStatus \<Rightarrow> ProviderAction \<Rightarrow> ProviderTransition" where
  "transition e f t a = \<lparr>on_event = e, from_set = f, to_state = t, action = a\<rparr>"

subsection \<open>ensureFunds\<close>

definition ensureFunds :: "ProviderEnv \<Rightarrow> MinerDeal \<Rightarrow> foreign + CID option" where
  "ensureFunds env deal =
     (case ChainHead env of
        Inl e \<Rightarrow> Inl e
      | Inr chain_head \<Rightarrow>
          (case makeKey env chain_head of
             Inl e \<Rightarrow> Inl e
           | Inr tipset_key \<Rightarrow>
               (case StateMinerInfo env (provider (proposal (client_deal_proposal deal))) tipset_key of
                  Inl e \<Rightarrow> Inl e
                | Inr worker_info \<Rightarrow>
                    MarketEnsureAvailable env
                      (provider (proposal (client_deal_proposal deal)))
                      (worker worker_info)
                      (provider_collateral (proposal (client_deal_proposal deal)))
                      tipset_key)))"

subsection \<open>The actions\<close>

definition onProviderEventOpen :: ProviderAction where
  "onProviderEventOpen env deal event from to = (deal, [ProviderEventDealAccepted])"

definition onProviderEventNodeErrored :: ProviderAction where
  "onProviderEventNodeErrored env deal event from to = (deal, [])"

definition onProviderEventDealRejected :: ProviderAction where
  "onProviderEventDealRejected env deal event from to = (deal, [])"

definition onProviderEventDealAccepted :: ProviderAction where
  "onProviderEventDealAccepted env deal event from to =
     (if transfer_type (ref deal) = kTransferTypeManual
      then (deal, [ProviderEventWaitingForManualData])
      else (deal, []))"

definition onProviderEventWaitingForManualData :: ProviderAction where
  "onProviderEventWaitingForManualData env deal event from to = (deal, [])"

definition onProviderEventInsufficientFunds :: ProviderAction where
  "onProviderEventInsufficientFunds env deal event from to = (deal, [])"

definition onProviderEventFundingInitiated :: ProviderAction where
  "onProviderEventFundingInitiated env deal event from to = (deal, [ProviderEventFunded])"

definition onProviderEventFunded :: ProviderAction where
  "onProviderEventFunded env deal event from to = (deal, [ProviderEventDealPublishInitiated])"

definition onProviderEventDataTransferFailed :: ProviderAction where
  "onProviderEventDataTransferFailed env deal event from to = (deal, [])"

definition onProviderEventDataTransferInitiated :: ProviderAction where
  "onProviderEventDataTransferInitiated env deal event from to = (deal, [])"

definition onProviderEventDataTransferCompleted :: ProviderAction where
  "onProviderEventDataTransferCompleted env deal event from to = (deal, [])"

definition onProviderEventManualDataReceived :: ProviderAction where
  "onProviderEventManualDataReceived env deal event from to = (deal, [])"

definition onProviderEventGeneratePieceCIDFailed :: ProviderAction where
  "onProviderEventGeneratePieceCIDFailed env deal event from to = (deal, [])"

definition onProviderEventVerifiedData :: ProviderAction where
  "onProviderEventVerifiedData env deal event from to =
     (case ensureFunds env deal of
        Inl e \<Rightarrow> (deal, [ProviderEventNodeErrored])
      | Inr maybe_cid \<Rightarrow>
          (case maybe_cid of
             Some cid \<Rightarrow> (deal\<lparr>add_funds_cid := Some cid\<rparr>, [ProviderEventFundingInitiated])
           | None \<Rightarrow> (deal, [ProviderEventFundingInitiated])))"

definition onProviderEventSendResponseFailed :: ProviderAction where
  "onProviderEventSendResponseFailed env deal event from to = (deal, [])"

definition onProviderEventDealPublishInitiated :: ProviderAction where
  "onProviderEventDealPublishInitiated env deal event from to = (deal, [ProviderEventDealPublished])"

definition onProviderEventDealPublished :: ProviderAction where
  "onProviderEventDealPublished env deal event from to = (deal, [ProviderEventDealHandedOff])"

definition onProviderEventDealPublishError :: ProviderAction where
  "onProviderEventDealPublishError env deal event from to = (deal, [])"

definition onProviderEventFileStoreErrored :: ProviderAction where
  "onProviderEventFileStoreErrored env deal event from to = (deal, [])"

definition onProviderEventDealHandoffFailed :: ProviderAction where
  "onProviderEventDealHandoffFailed env deal event from to = (deal, [])"

definition onProviderEventDealHandedOff :: ProviderAction where
  "onProviderEventDealHandedOff env deal event from to = (deal, [ProviderEventDealActivated])"

definition onProviderEventDealActivationFailed :: ProviderAction where
  "onProviderEventDealActivationFailed env deal event from to = (deal, [])"

definition onProviderEventUnableToLocatePiece :: ProviderAction where
  "onProviderEventUnableToLocatePiece env deal event from to = (deal, [])"

definition onProviderEventDealActivated :: ProviderAction where
  "onProviderEventDealActivated env deal event from to = (deal, [ProviderEventDealCompleted])"

definition onProviderEventPieceStoreErrored :: ProviderAction where
  "onProviderEventPieceStoreErrored env deal event from to = (deal, [])"

definition onProviderEventReadMetadataErrored :: ProviderAction where
  "onProviderEventReadMetadataErrored env deal event from to = (deal, [])"

definition onProviderEventDealCompleted :: ProviderAction where
  "onProviderEventDealCompleted env deal event from to = (deal, [])"

definition onProviderEventFailed :: ProviderAction where
  "onProviderEventFailed env deal event from to = (deal, [])"

text \<open>\<^verbatim>\<open>CALLBACK_ACTION\<close>: run the action, then set the state of the deal.\<close>

definition CALLBACK_ACTION :: "ProviderAction \<Rightarrow> ProviderAction" where
  "CALLBACK_ACTION act env deal event from to =
     (case act env deal event from to of (deal', sent) \<Rightarrow> (deal'\<lparr>state := to\<rparr>, sent))"

subsection \<open>The transition table\<close>

definition makeFSMTransitions :: "ProviderTransition list" where
  "makeFSMTransitions =
     [transition ProviderEventOpen (From [STORAGE_DEAL_UNKNOWN])
        STORAGE_DEAL_VALIDATING (CALLBACK_ACTION onProviderEventOpen),
      transition ProviderEventNodeErrored FromAny
        STORAGE_DEAL_FAILING (CALLBACK_ACTION onProviderEventNodeErrored),
      transition ProviderEventDealRejected (From [STORAGE_DEAL_VALIDATING, STORAGE_DEAL_VERIFY_DATA])
        STORAGE_DEAL_FAILING (CALLBACK_ACTION onProviderEventDealRejected),
      transition ProviderEventDealAccepted (From [STORAGE_DEAL_VALIDATING])
        STORAGE_DEAL_PROPOSAL_ACCEPTED (CALLBACK_ACTION onProviderEventDealAccepted),
      transition ProviderEventWaitingForManualData (From [STORAGE_DEAL_PROPOSAL_ACCEPTED])
        STORAGE_DEAL_WAITING_FOR_DATA (CALLBACK_ACTION onProviderEventWaitingForManualData),
      transition ProviderEventDataTransferFailed
        (From [STORAGE_DEAL_PROPOSAL_ACCEPTED, STORAGE_DEAL_TRANSFERRING])
        STORAGE_DEAL_FAILING (CALLBACK_ACTION onProviderEventDataTransferFailed),
      transition ProviderEventDataTransferInitiated (From [STORAGE_DEAL_PROPOSAL_ACCEPTED])
        STORAGE_DEAL_TRANSFERRING (CALLBACK_ACTION onProviderEventDataTransferInitiated),
      transition ProviderEventDataTransferCompleted (From [STORAGE_DEAL_TRANSFERRING])
        STORAGE_DEAL_VERIFY_DATA (CALLBACK_ACTION onProviderEventDataTransferCompleted),
      transition ProviderEventGeneratePieceCIDFailed (From [STORAGE_DEAL_VERIFY_DATA])
        STORAGE_DEAL_FAILING (CALLBACK_ACTION onProviderEventGeneratePieceCIDFailed),
      transition ProviderEventVerifiedData
        (From [STORAGE_DEAL_VERIFY_DATA, STORAGE_DEAL_WAITING_FOR_DATA])
        STORAGE_DEAL_ENSURE_PROVIDER_FUNDS (CALLBACK_ACTION onProviderEventVerifiedData),
      transition ProviderEventFundingInitiated (From [STORAGE_DEAL_ENSURE_PROVIDER_FUNDS])
        STORAGE_DEAL_PROVIDER_FUNDING (CALLBACK_ACTION onProviderEventFundingInitiated),
      transition ProviderEventFunded
        (From [STORAGE_DEAL_PROVIDER_FUNDING, STORAGE_DEAL_ENSURE_PROVIDER_FUNDS])
        STORAGE_DEAL_PUBLISH (CALLBACK_ACTION onProviderEventFunded),
      transition ProviderEventDealPublishInitiated (From [STORAGE_DEAL_PUBLISH])
        STORAGE_DEAL_PUBLISHING (CALLBACK_ACTION onProviderEventDealPublishInitiated),
      transition ProviderEventDealPublishError (From [STORAGE_DEAL_PUBLISHING])
        STORAGE_DEAL_FAILING (CALLBACK_ACTION onProviderEventDealPublishError),
      transition ProviderEventSendResponseFailed
        (From [STORAGE_DEAL_PUBLISHING, STORAGE_DEAL_FAILING])
        STORAGE_DEAL_ERROR (CALLBACK_ACTION onProviderEventSendResponseFailed),
      transition ProviderEventDealPublished (From [STORAGE_DEAL_PUBLISHING])
        STORAGE_DEAL_STAGED (CALLBACK_ACTION onProviderEventDealPublished),
      transition ProviderEventFileStoreErrored
        (From [STORAGE_DEAL_STAGED, STORAGE_DEAL_SEALING, STORAGE_DEAL_ACTIVE])
        STORAGE_DEAL_FAILING (CALLBACK_ACTION onProviderEventFileStoreErrored),
      transition ProviderEventDealHandoffFailed (From [STORAGE_DEAL_STAGED])
        STORAGE_DEAL_FAILING (CALLBACK_ACTION onProviderEventDealHandoffFailed),
      transition ProviderEventDealHandedOff (From [STORAGE_DEAL_STAGED])
        STORAGE_DEAL_SEALING (CALLBACK_ACTION onProviderEventDealHandedOff),
      transition ProviderEventDealActivationFailed (From [STORAGE_DEAL_SEALING])
        STORAGE_DEAL_FAILING (CALLBACK_ACTION onProviderEventDealActivationFailed),
      transition ProviderEventDealActivated (From [STORAGE_DEAL_SEALING])
        STORAGE_DEAL_ACTIVE (CALLBACK_ACTION onProviderEventDealActivated),
      transition ProviderEventPieceStoreErrored (From [STORAGE_DEAL_ACTIVE])
        STORAGE_DEAL_FAILING (CALLBACK_ACTION onProviderEventPieceStoreErrored),
      transition ProviderEventDealCompleted (From [STORAGE_DEAL_ACTIVE])
        STORAGE_DEAL_COMPLETED (CALLBACK_ACTION onProviderEventDealCompleted),
      transition ProviderEventUnableToLocatePiece (From [STORAGE_DEAL_ACTIVE])
        STORAGE_DEAL_FAILING (CALLBACK_ACTION onProviderEventUnableToLocatePiece),
      transition ProviderEventReadMetadataErrored (From [STORAGE_DEAL_ACTIVE])
        STORAGE_DEAL_FAILING (CALLBACK_ACTION onProviderEventReadMetadataErrored),
      transition ProviderEventFailed (From [STORAGE_DEAL_FAILING])
        STORAGE_DEAL_ERROR (CALLBACK_ACTION onProviderEventFailed)]"

subsection \<open>Dispatch\<close>

text \<open>
  Modelled from the spec: the state machine itself (\<^verbatim>\<open>fsm/fsm.hpp\<close>) is not under src/.
  A transition is legal from the states of its from-set, and \<^verbatim>\<open>fromAny\<close> means any
  non-terminal state.  \<^verbatim>\<open>send\<close> puts an event for a deal at the end of a queue.  The
  machine takes the events one by one; a transition fires in one piece, the events that
  its action sends are queued behind the ones already waiting, and an event with no legal
  transition from the state of the deal is dropped.
\<close>

definition expand :: "from_states \<Rightarrow> StorageDealStatus list" where
  "expand f = (case f of From states \<Rightarrow> states | FromAny \<Rightarrow> filter (\<lambda>s. \<not> is_terminal s) all_states)"

record StorageProviderImpl =
  local_deals :: "CID \<rightharpoonup> MinerDeal"
  fsm_queue :: "(CID \<times> ProviderEvent) list"

definition fsm_send :: "CID \<Rightarrow> ProviderEvent \<Rightarrow> StorageProviderImpl \<Rightarrow> StorageProviderImpl" where
  "fsm_send c event st = st\<lparr>fsm_queue := fsm_queue st @ [(c, event)]\<rparr>"

definition legal :: "ProviderEvent \<Rightarrow> StorageDealStatus \<Rightarrow> ProviderTransition \<Rightarrow> bool" where
  "legal event s tr = (on_event tr = event \<and> s \<in> set (expand (from_set tr)))"

definition fsm_dispatch ::
  "ProviderEnv \<Rightarrow> CID \<Rightarrow> ProviderEvent \<Rightarrow> StorageProviderImpl \<Rightarrow> StorageProviderImpl" where
  "fsm_dispatch env c event st =
     (case local_deals st c of
        None \<Rightarrow> st
      | Some deal \<Rightarrow>
          (case find (legal event (state deal)) makeFSMTransitions of
             None \<Rightarrow> st
           | Some tr \<Rightarrow>
               (case action tr env deal event (state deal) (to_state tr) of
                  (deal', sent) \<Rightarrow>
                    st\<lparr>local_deals := (local_deals st)(c \<mapsto> deal'),
                       fsm_queue := fsm_queue st @ map (Pair c) sent\<rparr>)))"

definition fsm_step :: "ProviderEnv \<Rightarrow> StorageProviderImpl \<Rightarrow> StorageProviderImpl" where
  "fsm_step env st =
     (case fsm_queue st of
        [] \<Rightarrow> st
      | (c, event) # waiting \<Rightarrow> fsm_dispatch env c event (st\<lparr>fsm_queue := waiting\<rparr>))"

primrec fsm_steps :: "nat \<Rightarrow> ProviderEnv \<Rightarrow> StorageProviderImpl \<Rightarrow> StorageProviderImpl" where
  "fsm_steps 0 env st = st"
| "fsm_steps (Suc n) env st = fsm_steps n env (fsm_step env st)"

definition deal_state :: "StorageProviderImpl \<Rightarrow> CID \<Rightarrow> StorageDealStatus option" where
  "deal_state st c = map_option state (local_deals st c)"

subsection \<open>Entry points\<close>

definition getDeal :: "StorageProviderImpl \<Rightarrow> CID \<Rightarrow> market_error + MinerDeal" where
  "getDeal st c =
     (case local_deals st c of
        None \<Rightarrow> Inl (ProviderError LOCAL_DEAL_NOT_FOUND)
      | Some deal \<Rightarrow> Inr deal)"

definition importDataForDeal ::
  "ProviderEnv \<Rightarrow> CID \<Rightarrow> Buffer \<Rightarrow> StorageProviderImpl \<Rightarrow> (market_error + unit) \<times> StorageProviderImpl" where
  "importDataForDeal env c data st =
     (case generatePieceCommitment env (registered_proof env) data of
        Inl e \<Rightarrow> (Inl (NodeError e), st)
      | Inr piece_commitment \<Rightarrow>
          (case getDeal st c of
             Inl e \<Rightarrow> (Inl e, st)
           | Inr deal \<Rightarrow>
               if fst piece_commitment \<noteq> piece_cid (proposal (client_deal_proposal deal))
               then (Inl (ProviderError PIECE_CID_DOESNT_MATCH), st)
               else (Inr (), fsm_send c ProviderEventVerifiedData st)))"

text \<open>The handler of a deal stream, from the proposal that was read from the stream and
  the peer at the other end: the deal is recorded in state unknown and opened.\<close>

definition handleDealStream ::
  "ProviderEnv \<Rightarrow> Proposal \<Rightarrow> PeerInfo \<Rightarrow> StorageProviderImpl \<Rightarrow> StorageProviderImpl" where
  "handleDealStream env p remote_peer_info st =
     (case getProposalCid env (deal_proposal p) of
        Inl e \<Rightarrow> st
      | Inr c \<Rightarrow>
          fsm_send c ProviderEventOpen
            (st\<lparr>local_deals := (local_deals st)(c \<mapsto>
                  \<lparr>client_deal_proposal = deal_proposal p,
                   proposal_cid = c,
                   add_funds_cid = None,
                   miner_peer = host_peer_info env,
                   client_peer = remote_peer_info,
                   state = STORAGE_DEAL_UNKNOWN,
                   piece_path = [],
                   metadata_path = [],
                   connection_closed = False,
                   message = [],
                   ref = piece p,
                   deal_id = 0\<rparr>)\<rparr>))"

section \<open>Storage market: the chain-event watcher\<close>

text \<open>
  Source: \<^verbatim>\<open>core/markets/storage/events/events.hpp\<close> declares the interface and the
  watch record, \<^verbatim>\<open>test/core/markets/storage/events/events_test.cpp\<close> exercises it.

  Modelled from the spec: the implementation of the watcher is not under src/.  On every
  applied head change the messages of each block are taken in order, first the BLS
  messages, then the secp messages.  A \<^verbatim>\<open>PreCommitSector\<close> message to a provider records
  its sector number for every watch of that provider whose deal is among the deals of the
  message.  A \<^verbatim>\<open>ProveCommitSector\<close> message to a provider resolves, and drops, every
  watch of that provider with that sector number recorded.  A reverted
  \<^verbatim>\<open>PreCommitSector\<close> removes what it has recorded; a resolved promise stays resolved.
\<close>

type_synonym DealId = nat
type_synonym SectorNumber = nat

record SectorPreCommitInfo =
  sealed_cid :: CID
  deal_ids :: "DealId list"
  sector_no :: SectorNumber

text \<open>A message as the watcher reads it: the receiver, and the method with its decoded
  parameters.\<close>

datatype MethodCall =
    PreCommitSector SectorPreCommitInfo
  | ProveCommitSector SectorNumber
  | OtherMethod nat

record UnsignedMessage =
  msg_to :: Address
  msg_call :: MethodCall

datatype HeadChangeType = APPLY | REVERT

record BlockMessages =
  bls_messages :: "UnsignedMessage list"
  secp_messages :: "UnsignedMessage list"

record HeadChange =
  change_type :: HeadChangeType
  blks :: "BlockMessages list"

text \<open>\<^verbatim>\<open>Events::EventWatch\<close>; the promise is known by its number.\<close>

record EventWatch =
  watch_provider :: Address
  watch_deal_id :: DealId
  sector_number :: "SectorNumber option"
  result :: nat

record EventsImpl =
  watched :: "EventWatch list"
  resolved :: "nat list"
  promises :: nat

definition onDealSectorCommitted :: "Address \<Rightarrow> DealId \<Rightarrow> EventsImpl \<Rightarrow> nat \<times> EventsImpl" where
  "onDealSectorCommitted prov deal st =
     (promises st,
      st\<lparr>watched := watched st @
            [\<lparr>watch_provider = prov, watch_deal_id = deal, sector_number = None, result = promises st\<rparr>],
         promises := Suc (promises st)\<rparr>)"

definition pre_commit :: "Address \<Rightarrow> SectorPreCommitInfo \<Rightarrow> EventWatch \<Rightarrow> EventWatch" where
  "pre_commit receiver info w =
     (if watch_provider w = receiver \<and> watch_deal_id w \<in> set (deal_ids info)
      then w\<lparr>sector_number := Some (sector_no info)\<rparr>
      else w)"

definition revert_pre_commit :: "Address \<Rightarrow> SectorPreCommitInfo \<Rightarrow> EventWatch \<Rightarrow> EventWatch" where
  "revert_pre_commit receiver info w =
     (if watch_provider w = receiver \<and> watch_deal_id w \<in> set (deal_ids info)
         \<and> sector_number w = Some (sector_no info)
      then w\<lparr>sector_number := None\<rparr>
      else w)"

definition committed :: "Address \<Rightarrow> SectorNumber \<Rightarrow> EventWatch \<Rightarrow> bool" where
  "committed receiver s w = (watch_provider w = receiver \<and> sector_number w = Some s)"

definition onMessage :: "HeadChangeType \<times> UnsignedMessage \<Rightarrow> EventsImpl \<Rightarrow> EventsImpl" where
  "onMessage tm st =
     (case tm of
        (APPLY, m) \<Rightarrow>
          (case msg_call m of
             PreCommitSector info \<Rightarrow> st\<lparr>watched := map (pre_commit (msg_to m) info) (watched st)\<rparr>
           | ProveCommitSector s \<Rightarrow>
               st\<lparr>resolved := resolved st @ map result (filter (committed (msg_to m) s) (watched st)),
                  watched := filter (\<lambda>w. \<not> committed (msg_to m) s w) (watched st)\<rparr>
           | OtherMethod n \<Rightarrow> st)
      | (REVERT, m) \<Rightarrow>
          (case msg_call m of
             PreCommitSector info \<Rightarrow> st\<lparr>watched := map (revert_pre_commit (msg_to m) info) (watched st)\<rparr>
           | ProveCommitSector s \<Rightarrow> st
           | OtherMethod n \<Rightarrow> st))"

definition messages :: "HeadChange \<Rightarrow> (HeadChangeType \<times> UnsignedMessage) list" where
  "messages c = map (Pair (change_type c)) (concat (map (\<lambda>b. bls_messages b @ secp_messages b) (blks c)))"

definition observed :: "HeadChange list \<Rightarrow> (HeadChangeType \<times> UnsignedMessage) list" where
  "observed changes = concat (map messages changes)"

definition onHeadChange :: "HeadChange \<Rightarrow> EventsImpl \<Rightarrow> EventsImpl" where
  "onHeadChange c st = fold onMessage (messages c) st"

definition onHeadChanges :: "HeadChange list \<Rightarrow> EventsImpl \<Rightarrow> EventsImpl" where
  "onHeadChanges changes st = fold onHeadChange changes st"

text \<open>The numbers of the promises a watcher has handed out are below its counter.\<close>

definition events_ok :: "EventsImpl \<Rightarrow> bool" where
  "events_ok st =
     (list_all (\<lambda>w. result w < promises st) (watched st) \<and> list_all (\<lambda>p. p < promises st) (resolved st))"

text \<open>An applied pre-commit to the provider that lists the deal, with sector \<open>s\<close>, at
  position \<open>i\<close> of the observed messages.\<close>

definition pre_commit_at ::
  "(HeadChangeType \<times> UnsignedMessage) list \<Rightarrow> Address \<Rightarrow> DealId \<Rightarrow> SectorNumber \<Rightarrow> nat \<Rightarrow> bool" where
  "pre_commit_at evs prov deal s i =
     (i < length evs \<and>
      (\<exists>info. evs ! i = (APPLY, \<lparr>msg_to = prov, msg_call = PreCommitSector info\<rparr>) \<and>
              deal \<in> set (deal_ids info) \<and> sector_no info = s))"

text \<open>An applied pre-commit for the deal, and after it an applied prove-commit of the same
  sector.\<close>

definition commit_seen ::
  "(HeadChangeType \<times> UnsignedMessage) list \<Rightarrow> Address \<Rightarrow> DealId \<Rightarrow> bool" where
  "commit_seen evs prov deal =
     (\<exists>i j s. i < j \<and> j < length evs \<and> pre_commit_at evs prov deal s i \<and>
              evs ! j = (APPLY, \<lparr>msg_to = prov, msg_call = ProveCommitSector s\<rparr>))"

text \<open>What is known of promise \<open>p\<close>, made for the deal of the provider, after the
  messages \<open>evs\<close>: a watch that carries it is the deal's watch and has a sector recorded
  only from a pre-commit that was seen; the promise is resolved only after a commit was
  seen; and it is either resolved or still watched.\<close>

definition watch_inv ::
  "(HeadChangeType \<times> UnsignedMessage) list \<Rightarrow> Address \<Rightarrow> DealId \<Rightarrow> nat \<Rightarrow> EventsImpl \<Rightarrow> bool" where
  "watch_inv evs prov deal p st =
     ((\<forall>w \<in> set (watched st). result w = p \<longrightarrow>
          watch_provider w = prov \<and> watch_deal_id w = deal \<and>
          (\<forall>s. sector_number w = Some s \<longrightarrow> (\<exists>i. pre_commit_at evs prov deal s i)))
      \<and> (p \<in> set (resolved st) \<longrightarrow> commit_seen evs prov deal)
      \<and> (p \<in> set (resolved st) \<or> p \<in> set (map result (watched st))))"

section \<open>Concrete stores\<close>

text \<open>Inputs at which the operations of the local store are evaluated further down.\<close>

definition example_space :: "SectorFileType \<Rightarrow> RegisteredProof \<Rightarrow> nat" where
  "example_space t spt = 2048"

definition example_stat :: FsStat where
  "example_stat = \<lparr>capacity = 1048576, available = 1048576, used = 0\<rparr>"

definition example_meta :: "string \<Rightarrow> MetaFile" where
  "example_meta p =
     (if p = ''/tmp/s1''
      then Json (Inr \<lparr>meta_id = ''s1'', meta_weight = 10, meta_can_seal = True, meta_can_store = True\<rparr>)
      else NoFile)"

definition empty_index :: IndexState where
  "empty_index = \<lparr>attached = [], declared = []\<rparr>"

definition scan_disk :: FileSystem where
  "scan_disk =
     \<lparr>meta_file = example_meta,
      dir_entries = [''/tmp/s1/unsealed'' \<mapsto> [''s-t01000-7''],
                     ''/tmp/s1/sealed'' \<mapsto> [''s-t01000-7'', ''lost+found'']],
      getStat = (\<lambda>p. Inr example_stat),
      mkdir_ok = (\<lambda>p. True),
      rename_ok = (\<lambda>a b. True)\<rparr>"

definition scan_store :: "IndexState LocalStore" where
  "scan_store = \<lparr>store_paths = Map.empty, store_index = empty_index, store_urls = [], disk = scan_disk\<rparr>"

definition good_disk :: FileSystem where
  "good_disk =
     \<lparr>meta_file = example_meta,
      dir_entries = [''/tmp/s1/unsealed'' \<mapsto> [''s-t01000-7''],
                     ''/tmp/s1/sealed'' \<mapsto> [''s-t01000-7''],
                     ''/tmp/s1/cache'' \<mapsto> [''s-t01000-7'']],
      getStat = (\<lambda>p. Inr example_stat),
      mkdir_ok = (\<lambda>p. True),
      rename_ok = (\<lambda>a b. True)\<rparr>"

definition good_store :: "IndexState LocalStore" where
  "good_store = \<lparr>store_paths = Map.empty, store_index = empty_index, store_urls = [], disk = good_disk\<rparr>"

definition sector7 :: SectorId where
  "sector7 = \<lparr>miner = 1000, sector = 7\<rparr>"

definition move_disk :: FileSystem where
  "move_disk =
     \<lparr>meta_file = (\<lambda>p. NoFile),
      dir_entries = [''/mnt/seal/sealed'' \<mapsto> [''s-t01000-7''], ''/mnt/store/sealed'' \<mapsto> []],
      getStat = (\<lambda>p. Inr example_stat),
      mkdir_ok = (\<lambda>p. True),
      rename_ok = (\<lambda>a b. False)\<rparr>"

definition seal_storage :: StorageInfo where
  "seal_storage = \<lparr>id' = ''s1'', urls = [], weight = 1, can_seal = True, can_store = False\<rparr>"

definition long_term_storage :: StorageInfo where
  "long_term_storage = \<lparr>id' = ''s2'', urls = [], weight = 10, can_seal = False, can_store = True\<rparr>"

definition move_index :: IndexState where
  "move_index =
     \<lparr>attached = [(seal_storage, example_stat), (long_term_storage, example_stat)],
      declared = [(''s1'', sector7, FTSealed)]\<rparr>"

definition move_store :: "IndexState LocalStore" where
  "move_store =
     \<lparr>store_paths = [''s1'' \<mapsto> ''/mnt/seal'', ''s2'' \<mapsto> ''/mnt/store''],
      store_index = move_index, store_urls = [], disk = move_disk\<rparr>"

text \<open>The same two storages when the destination holds a copy of the sealed file already
  and the source, the heavier of the two, has no space left.\<close>

definition full_stat :: FsStat where
  "full_stat = \<lparr>capacity = 1048576, available = 0, used = 1048576\<rparr>"

definition copied_index :: IndexState where
  "copied_index =
     \<lparr>attached = [(seal_storage\<lparr>weight := 20\<rparr>, full_stat), (long_term_storage, example_stat)],
      declared = [(''s1'', sector7, FTSealed), (''s2'', sector7, FTSealed)]\<rparr>"

definition copied_store :: "IndexState LocalStore" where
  "copied_store = move_store\<lparr>store_index := copied_index\<rparr>"

section \<open>Concrete providers\<close>

text \<open>Inputs at which the provider is evaluated further down: a node that answers every
  call, a proposal, and a provider holding one deal that waits for its data.\<close>

definition example_env :: "CID option \<Rightarrow> ProviderEnv" where
  "example_env funding =
     \<lparr>registered_proof = 3,
      host_peer_info = ''provider-peer'',
      ChainHead = Inr 100,
      makeKey = (\<lambda>ts. Inr ts),
      StateMinerInfo = (\<lambda>a k. Inr \<lparr>owner = ''t0100'', worker = ''t0101''\<rparr>),
      MarketEnsureAvailable = (\<lambda>a w amount k. Inr funding),
      generatePieceCommitment = (\<lambda>rp data. Inr (if data = [] then ''baga6ea4seaq-empty'' else ''baga6ea4seaq-piece'', length data)),
      getProposalCid = (\<lambda>p. Inr (''bafy-'' @ client_signature p))\<rparr>"

definition oversized_proposal :: Proposal where
  "oversized_proposal =
     \<lparr>deal_proposal =
        \<lparr>proposal =
           \<lparr>piece_cid = ''baga6ea4seaq-piece'', piece_size = 4096, verified = False,
            client = ''t01001'', provider = ''t02000'', start_epoch = 10, end_epoch = 20,
            storage_price_per_epoch = 1, provider_collateral = 0, client_collateral = 0\<rparr>,
         client_signature = ''forged''\<rparr>,
      piece = \<lparr>transfer_type = ''manual'', root = ''bafy-root'', ref_piece_cid = None\<rparr>\<rparr>"

definition no_deals :: StorageProviderImpl where
  "no_deals = \<lparr>local_deals = Map.empty, fsm_queue = []\<rparr>"

definition waiting_deal :: MinerDeal where
  "waiting_deal =
     \<lparr>client_deal_proposal = deal_proposal oversized_proposal,
      proposal_cid = ''bafy-forged'',
      add_funds_cid = None,
      miner_peer = ''provider-peer'',
      client_peer = ''client-peer'',
      state = STORAGE_DEAL_WAITING_FOR_DATA,
      piece_path = [],
      metadata_path = [],
      connection_closed = False,
      message = [],
      ref = piece oversized_proposal,
      deal_id = 0\<rparr>"

definition waiting_provider :: StorageProviderImpl where
  "waiting_provider = \<lparr>local_deals = [''bafy-forged'' \<mapsto> waiting_deal], fsm_queue = []\<rparr>"

definition verified_provider :: StorageProviderImpl where
  "verified_provider =
     \<lparr>local_deals = [''bafy-forged'' \<mapsto> waiting_deal],
      fsm_queue = [(''bafy-forged'', ProviderEventVerifiedData)]\<rparr>"

section \<open>Concrete chains\<close>

text \<open>The messages of the watcher's test: a pre-commit of sector 13 that lists deal 1,
  and the prove-commit of sector 13, to the provider with id 1.\<close>

definition new_events :: EventsImpl where
  "new_events = \<lparr>watched = [], resolved = [], promises = 0\<rparr>"

definition pre_commit_message :: UnsignedMessage where
  "pre_commit_message =
     \<lparr>msg_to = ''t01'',
      msg_call = PreCommitSector \<lparr>sealed_cid = ''010001020001'', deal_ids = [1], sector_no = 13\<rparr>\<rparr>"

definition prove_commit_message :: UnsignedMessage where
  "prove_commit_message = \<lparr>msg_to = ''t01'', msg_call = ProveCommitSector 13\<rparr>"

definition commit_change :: HeadChange where
  "commit_change =
     \<lparr>change_type = APPLY,
      blks = [\<lparr>bls_messages = [pre_commit_message, prove_commit_message], secp_messages = []\<rparr>]\<rparr>"

definition prove_only_change :: HeadChange where
  "prove_only_change =
     \<lparr>change_type = APPLY,
      blks = [\<lparr>bls_messages = [prove_commit_message], secp_messages = []\<rparr>]\<rparr>"

section \<open>Properties of the local store\<close>

subsection \<open>Evaluation\<close>

text \<open>The definitions unfolded when an operation is evaluated at a concrete store.\<close>

lemmas type_defs =
  FTNone_def FTUnsealed_def FTSealed_def FTCache_def kSectorFileTypes_def toString_def
  getPathByType_def setPathByType_def no_paths_def

lemmas path_defs =
  path_join_def sectorPath_def sectorName_def digit_char_def to_string.simps
  parent_path_def filename_def

lemmas parse_defs =
  parseSectorId_def regex_match_def is_digit_def lexical_cast_def decimal_def

lemmas index_defs =
  SectorIndexImpl_def impl_attach_def impl_declare_def impl_drop_def impl_find_def
  impl_best_alloc_def impl_info_def by_weight_def example_space_def example_stat_def
  sector7_def

lemmas acquire_defs =
  acquireSectorWithoutLock_def acquire_existing_def acquire_allocate_def

lemmas open_defs =
  openPath_def open_type_def scan_entry_def create_directories_def example_meta_def
  empty_index_def

lemma kinds: "t \<in> set kSectorFileTypes \<longleftrightarrow> t = 1 \<or> t = 2 \<or> t = 4"
  by (auto simp: kSectorFileTypes_def FTUnsealed_def FTSealed_def FTCache_def)

subsection \<open>Loops that keep a part of the store\<close>

lemma try_each_invariant:
  assumes "\<And>x s. P s \<Longrightarrow> P (snd (f x s))" and "P s"
  shows "P (snd (try_each f xs s))"
  using assms(2)
proof (induction xs arbitrary: s)
  case Nil
  then show ?case by simp
next
  case (Cons x xs)
  obtain r s' where fx: "f x s = (r, s')" by (cases "f x s")
  with assms(1) [OF Cons.prems, of x] have "P s'" by simp
  show ?case
  proof (cases r)
    case (Inl e)
    with fx \<open>P s'\<close> show ?thesis by simp
  next
    case (Inr u)
    with fx Cons.IH [OF \<open>P s'\<close>] show ?thesis by simp
  qed
qed

lemma scan_entry_keeps:
  "disk (snd (scan_entry ops storage t name st)) = disk st"
  "store_paths (snd (scan_entry ops storage t name st)) = store_paths st"
  by (auto simp: scan_entry_def split: sum.splits)

lemma scan_keeps_disk:
  "disk (snd (try_each (scan_entry ops storage t) entries st)) = disk st"
  by (rule try_each_invariant [where P = "\<lambda>s. disk s = disk st"]) (simp_all add: scan_entry_keeps)

lemma parse_unmatched:
  "regex_match name = None \<Longrightarrow> parseSectorId name = Inl (StoreError InvalidSectorName)"
  by (simp add: parseSectorId_def)

subsection \<open>acquireSector: masks that share a bit\<close>

lemma or_neq_xor_iff: "((e::SectorFileType) OR a) \<noteq> (e XOR a) \<longleftrightarrow> e AND a \<noteq> 0"
  by (auto simp: bit_eq_iff bit_simps)

lemma try_fold_error:
  "try_fold f xs acc = Inl e \<Longrightarrow> \<exists>x acc'. x \<in> set xs \<and> f x acc' = Inl e"
proof (induction xs arbitrary: acc)
  case Nil
  then show ?case by simp
next
  case (Cons x xs)
  show ?case
  proof (cases "f x acc")
    case (Inl e')
    with Cons.prems show ?thesis by auto
  next
    case (Inr acc')
    with Cons.prems have "try_fold f xs acc' = Inl e" by simp
    from Cons.IH [OF this] show ?thesis by auto
  qed
qed

lemma acquire_allocate_error:
  "acquire_allocate ops st sid spt sealing t acc = Inl e \<Longrightarrow>
   e = StoreError NotFoundPath \<or> (\<exists>f. e = ForeignError f)"
  by (auto simp: acquire_allocate_def split: prod.splits if_splits sum.splits option.splits)

lemma acquireSectorWithoutLock_error:
  assumes "acquireSectorWithoutLock ops st sid spt existing allocate sealing = Inl e"
  shows "e = StoreError NotFoundPath \<or> (\<exists>f. e = ForeignError f)"
proof -
  obtain found ex' where "fold (acquire_existing ops st sid) kSectorFileTypes
             (\<lparr>paths = no_paths, stores = no_paths\<rparr>, existing) = (found, ex')"
    by (cases "fold (acquire_existing ops st sid) kSectorFileTypes
             (\<lparr>paths = no_paths, stores = no_paths\<rparr>, existing)")
  with assms have "try_fold (acquire_allocate ops st sid spt sealing) kSectorFileTypes
                     (found, allocate) = Inl e"
    by (auto simp: acquireSectorWithoutLock_def split: sum.splits prod.splits)
  from try_fold_error [OF this] acquire_allocate_error show ?thesis by blast
qed

text \<open>
  C8.  \<^verbatim>\<open>acquireSector\<close> returns \<open>FindAndAllocate\<close> exactly when the masks
  \<open>existing\<close> and \<open>allocate\<close> share a file-type bit.  When they do, this is the answer
  for every index and every store: neither is consulted.  When they are disjoint, no
  later step of the call produces this error.
\<close>

theorem acquireSector_FindAndAllocate:
  "(acquireSector ops st sid spt existing allocate sealing = Inl (StoreError FindAndAllocate))
   = (existing AND allocate \<noteq> 0)"
proof
  assume "acquireSector ops st sid spt existing allocate sealing = Inl (StoreError FindAndAllocate)"
  then show "existing AND allocate \<noteq> 0"
    using acquireSectorWithoutLock_error
      [of ops st sid spt existing allocate sealing "StoreError FindAndAllocate"]
    by (auto simp: acquireSector_def or_neq_xor_iff split: if_splits)
next
  assume "existing AND allocate \<noteq> 0"
  then show "acquireSector ops st sid spt existing allocate sealing = Inl (StoreError FindAndAllocate)"
    by (simp add: acquireSector_def or_neq_xor_iff)
qed

text \<open>Both directions at the store with two storages: the masks unsealed and unsealed
  share a bit; the masks cache and unsealed or sealed do not.\<close>

theorem acquireSector_FindAndAllocate_witness:
  "FTUnsealed AND FTUnsealed \<noteq> 0
   \<and> acquireSector (SectorIndexImpl example_space) move_store sector7 0 FTUnsealed FTUnsealed True
       = Inl (StoreError FindAndAllocate)
   \<and> FTCache AND (FTUnsealed OR FTSealed) = 0
   \<and> acquireSector (SectorIndexImpl example_space) move_store sector7 0 FTCache (FTUnsealed OR FTSealed) True
       \<noteq> Inl (StoreError FindAndAllocate)"
proof -
  have 1: "FTUnsealed AND FTUnsealed \<noteq> 0" by (simp add: FTUnsealed_def)
  have 2: "FTCache AND (FTUnsealed OR FTSealed) = 0"
    by (simp add: FTUnsealed_def FTSealed_def FTCache_def)
  from 1 have 3: "acquireSector (SectorIndexImpl example_space) move_store sector7 0 FTUnsealed FTUnsealed True
       = Inl (StoreError FindAndAllocate)"
    by (simp add: acquireSector_FindAndAllocate)
  from 2 have 4: "acquireSector (SectorIndexImpl example_space) move_store sector7 0 FTCache
        (FTUnsealed OR FTSealed) True \<noteq> Inl (StoreError FindAndAllocate)"
    by (simp add: acquireSector_FindAndAllocate)
  from 1 2 3 4 show ?thesis by blast
qed

subsection \<open>openPath: a file name that is not a sector name\<close>

lemma scan_stops_at_unparsed:
  assumes "name \<in> set entries" and "parseSectorId name = Inl e0"
  shows "\<exists>e. fst (try_each (scan_entry ops storage t) entries st) = Inl e"
  using assms(1)
proof (induction entries arbitrary: st)
  case Nil
  then show ?case by simp
next
  case (Cons x xs)
  obtain r s' where fx: "scan_entry ops storage t x st = (r, s')"
    by (cases "scan_entry ops storage t x st")
  show ?case
  proof (cases r)
    case (Inl e)
    with fx show ?thesis by simp
  next
    case (Inr u)
    with fx assms(2) have "x \<noteq> name" by (auto simp: scan_entry_def)
    with Cons.prems have "name \<in> set xs" by simp
    from Cons.IH [OF this, of s'] fx Inr show ?thesis by simp
  qed
qed

lemma open_type_keeps_dirs:
  assumes "dir_entries (disk st) k = Some es"
  shows "dir_entries (disk (snd (open_type ops root_path storage t st))) k = Some es"
  using assms
  by (auto simp: open_type_def create_directories_def scan_keeps_disk
           split: option.splits sum.splits if_splits)

lemma open_types_stop_at_unparsed:
  assumes "t \<in> set ts"
    and "dir_entries (disk st) (path_join root_path (toString t)) = Some entries"
    and "name \<in> set entries" and "parseSectorId name = Inl e0"
  shows "\<exists>e. fst (try_each (open_type ops root_path storage) ts st) = Inl e"
  using assms(1,2)
proof (induction ts arbitrary: st)
  case Nil
  then show ?case by simp
next
  case (Cons x xs)
  obtain r s' where fx: "open_type ops root_path storage x st = (r, s')"
    by (cases "open_type ops root_path storage x st")
  show ?case
  proof (cases r)
    case (Inl e)
    with fx show ?thesis by simp
  next
    case (Inr u)
    have "x \<noteq> t"
    proof
      assume "x = t"
      with fx Cons.prems(2) have "try_each (scan_entry ops storage t) entries st = (r, s')"
        by (simp add: open_type_def)
      with scan_stops_at_unparsed [OF assms(3,4), of ops storage t st] Inr show False by simp
    qed
    with Cons.prems(1) have t: "t \<in> set xs" by simp
    from open_type_keeps_dirs [OF Cons.prems(2), of ops root_path storage x] fx
    have "dir_entries (disk s') (path_join root_path (toString t)) = Some entries" by simp
    from Cons.IH [OF t this] fx Inr show ?thesis by simp
  qed
qed

lemma open_type_keeps_paths:
  "store_paths (snd (open_type ops root_path storage t st)) = store_paths st"
proof (cases "dir_entries (disk st) (path_join root_path (toString t))")
  case None
  then show ?thesis
    by (auto simp: open_type_def create_directories_def split: sum.splits if_splits)
next
  case (Some entries)
  have "store_paths (snd (try_each (scan_entry ops storage t) entries st)) = store_paths st"
    by (rule try_each_invariant [where P = "\<lambda>s. store_paths s = store_paths st"])
       (simp_all add: scan_entry_keeps)
  with Some show ?thesis by (simp add: open_type_def)
qed

lemma open_types_keep_paths:
  "store_paths (snd (try_each (open_type ops root_path storage) ts st)) = store_paths st"
  by (rule try_each_invariant [where P = "\<lambda>s. store_paths s = store_paths st"])
     (simp_all add: open_type_keeps_paths)

lemma openPath_error_keeps_paths:
  assumes "openPath ops path st = (Inl e, st')"
  shows "store_paths st' = store_paths st"
proof -
  have "store_paths (snd (try_each (open_type ops path storage) kSectorFileTypes
           (st\<lparr>store_index := ix\<rparr>))) = store_paths st" for storage ix
    using open_types_keep_paths [of ops path storage kSectorFileTypes "st\<lparr>store_index := ix\<rparr>"]
    by simp
  then have "\<And>storage ix r s. try_each (open_type ops path storage) kSectorFileTypes
           (st\<lparr>store_index := ix\<rparr>) = (r, s) \<Longrightarrow> store_paths s = store_paths st"
    by (metis snd_conv)
  with assms show ?thesis
    by (auto simp: openPath_def split: MetaFile.splits sum.splits if_splits prod.splits)
qed

text \<open>
  C4, as amended.  A file name in an existing sector-type subdirectory that does not match
  the regex is not skipped: whenever there is one, \<^verbatim>\<open>openPath\<close> fails, and the path of
  the storage is not registered.  The round of the scan that meets such a name returns
  \<open>InvalidSectorName\<close> and declares nothing, so the name is never misclassified.
\<close>

theorem openPath_unmatched_filename:
  assumes "t \<in> set kSectorFileTypes"
    and "dir_entries (disk st) (path_join path (toString t)) = Some entries"
    and "name \<in> set entries"
    and "regex_match name = None"
  shows "(\<exists>e st'. openPath ops path st = (Inl e, st') \<and> store_paths st' = store_paths st)
       \<and> (\<forall>storage s. scan_entry ops storage t name s = (Inl (StoreError InvalidSectorName), s))"
proof -
  have "\<exists>e. fst (try_each (open_type ops path storage) kSectorFileTypes (st\<lparr>store_index := ix\<rparr>)) = Inl e"
    for storage ix
    using open_types_stop_at_unparsed
      [OF assms(1) _ assms(3) parse_unmatched [OF assms(4)], of "st\<lparr>store_index := ix\<rparr>" path ops storage]
      assms(2)
    by simp
  then have "\<And>storage ix u s. try_each (open_type ops path storage) kSectorFileTypes
           (st\<lparr>store_index := ix\<rparr>) \<noteq> (Inr u, s)"
    by (metis fst_conv sum.distinct(1))
  then have "\<exists>e st'. openPath ops path st = (Inl e, st')"
    by (auto simp: openPath_def split: MetaFile.splits sum.splits prod.splits)
  with openPath_error_keeps_paths
  have "\<exists>e st'. openPath ops path st = (Inl e, st') \<and> store_paths st' = store_paths st"
    by blast
  moreover have "scan_entry ops storage t name s = (Inl (StoreError InvalidSectorName), s)" for storage s
    by (simp add: scan_entry_def parse_unmatched [OF assms(4)])
  ultimately show ?thesis by blast
qed

text \<open>
  The claim as stated fails: with the unsealed file \<^verbatim>\<open>s-t01000-7\<close> and, under
  \<^verbatim>\<open>sealed\<close>, the entries \<^verbatim>\<open>s-t01000-7\<close> and \<^verbatim>\<open>lost+found\<close>, \<^verbatim>\<open>openPath\<close> does not
  succeed.  It returns \<open>InvalidSectorName\<close> at the second entry, after the storage has
  been attached and the two sector files before it have been declared.
\<close>

theorem openPath_unmatched_filename_fails:
  "fst (openPath (SectorIndexImpl example_space) ''/tmp/s1'' scan_store) = Inl (StoreError InvalidSectorName)
   \<and> store_paths (snd (openPath (SectorIndexImpl example_space) ''/tmp/s1'' scan_store)) = Map.empty
   \<and> declared (store_index (snd (openPath (SectorIndexImpl example_space) ''/tmp/s1'' scan_store)))
       = [(''s1'', sector7, FTSealed), (''s1'', sector7, FTUnsealed)]"
  by (simp add: open_defs parse_defs index_defs type_defs path_join_def scan_store_def scan_disk_def)

theorem openPath_unmatched_filename_witness:
  "FTSealed \<in> set kSectorFileTypes
   \<and> dir_entries (disk scan_store) (path_join ''/tmp/s1'' (toString FTSealed)) = Some [''s-t01000-7'', ''lost+found'']
   \<and> regex_match ''lost+found'' = None
   \<and> (\<exists>e st'. openPath (SectorIndexImpl example_space) ''/tmp/s1'' scan_store = (Inl e, st')
         \<and> store_paths st' = store_paths scan_store)
   \<and> scan_entry (SectorIndexImpl example_space) ''s1'' FTSealed ''lost+found'' scan_store
       = (Inl (StoreError InvalidSectorName), scan_store)"
proof -
  have 1: "FTSealed \<in> set kSectorFileTypes" by (simp add: kSectorFileTypes_def)
  have 2: "dir_entries (disk scan_store) (path_join ''/tmp/s1'' (toString FTSealed))
           = Some [''s-t01000-7'', ''lost+found'']"
    by (simp add: scan_store_def scan_disk_def path_join_def type_defs)
  have 3: "''lost+found'' \<in> set [''s-t01000-7'', ''lost+found'']" by simp
  have 4: "regex_match ''lost+found'' = None" by (simp add: regex_match_def)
  from openPath_unmatched_filename [OF 1 2 3 4] 1 2 4 show ?thesis by blast
qed

subsection \<open>openPath: the same path twice\<close>

lemma open_type_keeps_meta:
  "meta_file (disk (snd (open_type ops root_path storage t st))) = meta_file (disk st)"
  by (auto simp: open_type_def create_directories_def scan_keeps_disk
           split: option.splits sum.splits if_splits)

lemma open_types_keep_meta:
  "meta_file (disk (snd (try_each (open_type ops root_path storage) ts st))) = meta_file (disk st)"
  by (rule try_each_invariant [where P = "\<lambda>s. meta_file (disk s) = meta_file (disk st)"])
     (simp_all add: open_type_keeps_meta)

lemma openPath_success:
  assumes "openPath ops path st = (Inr (), st1)"
  shows "\<exists>meta. meta_file (disk st1) path = Json (Inr meta) \<and> store_paths st1 (meta_id meta) = Some path"
proof -
  from assms obtain meta where m: "meta_file (disk st) path = Json (Inr meta)"
    by (auto simp: openPath_def split: MetaFile.splits sum.splits if_splits)
  from assms m obtain ix st' where
    loop: "try_each (open_type ops path (meta_id meta)) kSectorFileTypes (st\<lparr>store_index := ix\<rparr>) = (Inr (), st')"
    and st1: "st1 = st'\<lparr>store_paths := (store_paths st')(meta_id meta \<mapsto> path)\<rparr>"
    by (auto simp: openPath_def split: sum.splits if_splits prod.splits)
  have "meta_file (disk st') = meta_file (disk (st\<lparr>store_index := ix\<rparr>))"
    using open_types_keep_meta [of ops path "meta_id meta" kSectorFileTypes "st\<lparr>store_index := ix\<rparr>"] loop
    by simp
  with m st1 show ?thesis by simp
qed

text \<open>
  C9.  When \<^verbatim>\<open>openPath\<close> has succeeded on a path, a second call on the same path
  returns \<open>DuplicateStorage\<close> and leaves the store, the index and the disk exactly as
  the first call left them.
\<close>

theorem openPath_twice_DuplicateStorage:
  assumes "openPath ops path st = (Inr (), st1)"
  shows "openPath ops path st1 = (Inl (StoreError DuplicateStorage), st1)"
  using openPath_success [OF assms] by (auto simp: openPath_def)

theorem openPath_twice_witness:
  "fst (openPath (SectorIndexImpl example_space) ''/tmp/s1'' good_store) = Inr ()
   \<and> openPath (SectorIndexImpl example_space) ''/tmp/s1''
        (snd (openPath (SectorIndexImpl example_space) ''/tmp/s1'' good_store))
      = (Inl (StoreError DuplicateStorage),
         snd (openPath (SectorIndexImpl example_space) ''/tmp/s1'' good_store))"
proof -
  have 1: "fst (openPath (SectorIndexImpl example_space) ''/tmp/s1'' good_store) = Inr ()"
    by (simp add: open_defs parse_defs index_defs type_defs path_join_def good_store_def good_disk_def)
  then have "openPath (SectorIndexImpl example_space) ''/tmp/s1'' good_store
       = (Inr (), snd (openPath (SectorIndexImpl example_space) ''/tmp/s1'' good_store))"
    by (metis prod.collapse)
  from openPath_twice_DuplicateStorage [OF this] 1 show ?thesis by simp
qed

subsection \<open>moveStorage: a rename that fails\<close>

lemma try_each_error:
  "try_each f xs st = (Inl e, st') \<Longrightarrow>
   \<exists>pre x post s. xs = pre @ x # post \<and> try_each f pre st = (Inr (), s) \<and> f x s = (Inl e, st')"
proof (induction xs arbitrary: st)
  case Nil
  then show ?case by simp
next
  case (Cons x xs)
  obtain r s1 where fx: "f x st = (r, s1)" by (cases "f x st")
  show ?case
  proof (cases r)
    case (Inl e')
    with fx Cons.prems have "f x st = (Inl e, st')" by simp
    then have "x # xs = [] @ x # xs \<and> try_each f [] st = (Inr (), st) \<and> f x st = (Inl e, st')"
      by simp
    then show ?thesis by blast
  next
    case (Inr u)
    with fx Cons.prems have "try_each f xs s1 = (Inl e, st')" by simp
    from Cons.IH [OF this] obtain pre y post s where
      *: "xs = pre @ y # post" "try_each f pre s1 = (Inr (), s)" "f y s = (Inl e, st')"
      by blast
    with fx Inr have "x # xs = (x # pre) @ y # post \<and> try_each f (x # pre) st = (Inr (), s)
        \<and> f y s = (Inl e, st')"
      by simp
    then show ?thesis by blast
  qed
qed

lemma move_type_CannotMoveSector:
  assumes "move_type ops sid types dest src t s = (Inl (StoreError CannotMoveSector), st')"
  shows "\<exists>source_storage_id sst dest_storage_id dst source_path dest_path dropped.
           types AND t \<noteq> 0 \<and>
           getPathByType (stores src) t = Inr source_storage_id \<and>
           getStorageInfo ops source_storage_id (store_index s) = Inr sst \<and>
           getPathByType (stores dest) t = Inr dest_storage_id \<and>
           getStorageInfo ops dest_storage_id (store_index s) = Inr dst \<and>
           id' sst \<noteq> id' dst \<and> \<not> can_store sst \<and>
           storageDropSector ops source_storage_id sid t (store_index s) = Inr dropped \<and>
           getPathByType (paths src) t = Inr source_path \<and>
           getPathByType (paths dest) t = Inr dest_path \<and>
           rename source_path dest_path (disk s) = None \<and>
           st' = s\<lparr>store_index := dropped\<rparr>"
  using assms
  by (auto simp: move_type_def split: if_splits sum.splits option.splits)

text \<open>
  C5, as amended.  The update of the index is not transactional with the rename: the
  source declaration is dropped before the rename and the destination is declared after
  it.  Whenever \<^verbatim>\<open>moveStorage\<close> returns \<open>CannotMoveSector\<close>, it does so in the round of
  some type bit \<open>t\<close> of \<open>types\<close> whose source storage cannot store and is not the
  destination; with \<open>s\<close> the store as the rounds before left it, the rename failed on the
  disk of \<open>s\<close>, and the store returned is \<open>s\<close> with its index replaced by the result of
  \<^verbatim>\<open>storageDropSector\<close> for the source.  So the drop is not undone, the round adds no
  declaration for the destination, and the disk is the one on which the rename failed:
  the file has not moved.
\<close>

theorem moveStorage_CannotMoveSector:
  assumes "moveStorage ops sid spt types st = (Inl (StoreError CannotMoveSector), st')"
  shows "\<exists>dest src pre t post s source_storage_id sst dest_storage_id dst source_path dest_path
            dropped.
           acquireSectorWithoutLock ops st sid spt FTNone types False = Inr dest \<and>
           acquireSectorWithoutLock ops st sid spt types FTNone False = Inr src \<and>
           kSectorFileTypes = pre @ t # post \<and> types AND t \<noteq> 0 \<and>
           try_each (move_type ops sid types dest src) pre st = (Inr (), s) \<and>
           getPathByType (stores src) t = Inr source_storage_id \<and>
           getStorageInfo ops source_storage_id (store_index s) = Inr sst \<and>
           getPathByType (stores dest) t = Inr dest_storage_id \<and>
           getStorageInfo ops dest_storage_id (store_index s) = Inr dst \<and>
           id' sst \<noteq> id' dst \<and> \<not> can_store sst \<and>
           storageDropSector ops source_storage_id sid t (store_index s) = Inr dropped \<and>
           getPathByType (paths src) t = Inr source_path \<and>
           getPathByType (paths dest) t = Inr dest_path \<and>
           rename source_path dest_path (disk s) = None \<and>
           st' = s\<lparr>store_index := dropped\<rparr> \<and>
           store_index st' = dropped \<and> disk st' = disk s \<and> store_paths st' = store_paths s"
proof -
  have no: "acquireSectorWithoutLock ops st sid spt a b False \<noteq> Inl (StoreError CannotMoveSector)" for a b
    using acquireSectorWithoutLock_error [of ops st sid spt a b False "StoreError CannotMoveSector"]
    by auto
  from assms no obtain dest src where
    d: "acquireSectorWithoutLock ops st sid spt FTNone types False = Inr dest" and
    s: "acquireSectorWithoutLock ops st sid spt types FTNone False = Inr src" and
    loop: "try_each (move_type ops sid types dest src) kSectorFileTypes st
           = (Inl (StoreError CannotMoveSector), st')"
    by (auto simp: moveStorage_def split: sum.splits)
  from try_each_error [OF loop] obtain pre t post s1 where
    *: "kSectorFileTypes = pre @ t # post"
       "try_each (move_type ops sid types dest src) pre st = (Inr (), s1)"
       "move_type ops sid types dest src t s1 = (Inl (StoreError CannotMoveSector), st')"
    by blast
  from move_type_CannotMoveSector [OF *(3)] obtain source_storage_id sst dest_storage_id dst
      source_path dest_path dropped where
    m: "types AND t \<noteq> 0"
       "getPathByType (stores src) t = Inr source_storage_id"
       "getStorageInfo ops source_storage_id (store_index s1) = Inr sst"
       "getPathByType (stores dest) t = Inr dest_storage_id"
       "getStorageInfo ops dest_storage_id (store_index s1) = Inr dst"
       "id' sst \<noteq> id' dst" "\<not> can_store sst"
       "storageDropSector ops source_storage_id sid t (store_index s1) = Inr dropped"
       "getPathByType (paths src) t = Inr source_path"
       "getPathByType (paths dest) t = Inr dest_path"
       "rename source_path dest_path (disk s1) = None"
       "st' = s1\<lparr>store_index := dropped\<rparr>"
    by blast
  from m(12) have k: "store_index st' = dropped" "disk st' = disk s1" "store_paths st' = store_paths s1"
    by simp_all
  from d s *(1,2) m k show ?thesis by blast
qed

text \<open>
  The claim as stated fails.  Storage \<^verbatim>\<open>s1\<close> cannot store and holds the sealed file of
  a sector, storage \<^verbatim>\<open>s2\<close> can store, and the system refuses the rename.  Then
  \<^verbatim>\<open>moveStorage\<close> returns \<open>CannotMoveSector\<close>; the index has lost the declaration at
  \<^verbatim>\<open>s1\<close> and has none at \<^verbatim>\<open>s2\<close>, and the disk is unchanged: the file was not moved.
\<close>

theorem moveStorage_drops_before_failed_rename:
  "fst (moveStorage (SectorIndexImpl example_space) sector7 0 FTSealed move_store)
     = Inl (StoreError CannotMoveSector)
   \<and> declared (store_index move_store) = [(''s1'', sector7, FTSealed)]
   \<and> declared (store_index (snd (moveStorage (SectorIndexImpl example_space) sector7 0 FTSealed move_store))) = []
   \<and> disk (snd (moveStorage (SectorIndexImpl example_space) sector7 0 FTSealed move_store)) = disk move_store"
  by (simp add: moveStorage_def move_type_def acquire_defs index_defs type_defs path_defs rename_def
      move_store_def move_index_def move_disk_def seal_storage_def long_term_storage_def)

theorem moveStorage_CannotMoveSector_witness:
  "moveStorage (SectorIndexImpl example_space) sector7 0 FTSealed move_store
     = (Inl (StoreError CannotMoveSector), move_store\<lparr>store_index := move_index\<lparr>declared := []\<rparr>\<rparr>)
   \<and> (\<exists>pre t post s source_storage_id source_path dest_path dropped.
         kSectorFileTypes = pre @ t # post \<and> FTSealed AND t \<noteq> 0 \<and>
         storageDropSector (SectorIndexImpl example_space) source_storage_id sector7 t (store_index s)
           = Inr dropped \<and>
         rename source_path dest_path (disk s) = None \<and>
         move_store\<lparr>store_index := move_index\<lparr>declared := []\<rparr>\<rparr> = s\<lparr>store_index := dropped\<rparr> \<and>
         disk move_store = disk s)"
proof -
  have 1: "moveStorage (SectorIndexImpl example_space) sector7 0 FTSealed move_store
     = (Inl (StoreError CannotMoveSector), move_store\<lparr>store_index := move_index\<lparr>declared := []\<rparr>\<rparr>)"
    by (simp add: moveStorage_def move_type_def acquire_defs index_defs type_defs path_defs rename_def
      move_store_def move_index_def move_disk_def seal_storage_def long_term_storage_def)
  from moveStorage_CannotMoveSector [OF 1] obtain pre t post s source_storage_id source_path
      dest_path dropped where
    a: "kSectorFileTypes = pre @ t # post" "FTSealed AND t \<noteq> 0"
       "storageDropSector (SectorIndexImpl example_space) source_storage_id sector7 t (store_index s)
          = Inr dropped"
       "rename source_path dest_path (disk s) = None"
       "move_store\<lparr>store_index := move_index\<lparr>declared := []\<rparr>\<rparr> = s\<lparr>store_index := dropped\<rparr>"
       "disk (move_store\<lparr>store_index := move_index\<lparr>declared := []\<rparr>\<rparr>) = disk s"
    by blast
  from a(6) have "disk move_store = disk s" by simp
  with a(1-5) have
    "\<exists>pre t post s source_storage_id source_path dest_path dropped.
         kSectorFileTypes = pre @ t # post \<and> FTSealed AND t \<noteq> 0 \<and>
         storageDropSector (SectorIndexImpl example_space) source_storage_id sector7 t (store_index s)
           = Inr dropped \<and>
         rename source_path dest_path (disk s) = None \<and>
         move_store\<lparr>store_index := move_index\<lparr>declared := []\<rparr>\<rparr> = s\<lparr>store_index := dropped\<rparr> \<and>
         disk move_store = disk s"
    by blast
  with 1 show ?thesis by (rule conjI)
qed

text \<open>
  A declaration that the destination had before the call stays: when both storages
  declare the sealed file and the rename is refused, the index afterwards has lost the
  declaration of the source only.
\<close>

lemma moveStorage_keeps_other_declarations:
  "fst (moveStorage (SectorIndexImpl example_space) sector7 0 FTSealed copied_store)
     = Inl (StoreError CannotMoveSector)
   \<and> declared (store_index (snd (moveStorage (SectorIndexImpl example_space) sector7 0 FTSealed copied_store)))
     = [(''s2'', sector7, FTSealed)]"
  by (simp add: moveStorage_def move_type_def acquire_defs index_defs type_defs path_defs rename_def
      copied_store_def copied_index_def full_stat_def move_store_def move_disk_def seal_storage_def
      long_term_storage_def)

subsection \<open>acquireSector: a file that no local storage holds\<close>

lemma bit_one_bit:
  "(1 AND (a::SectorFileType) = 0) = (\<not> bit a 0)"
  "(2 AND (a::SectorFileType) = 0) = (\<not> bit a 1)"
  "(4 AND (a::SectorFileType) = 0) = (\<not> bit a 2)"
proof -
  show "(1 AND a = 0) = (\<not> bit a 0)"
    using and_exp_eq_0_iff_not_bit [of a 0] by (simp add: and.commute)
  show "(2 AND a = 0) = (\<not> bit a 1)"
    using and_exp_eq_0_iff_not_bit [of a 1] by (simp add: and.commute)
  show "(4 AND a = 0) = (\<not> bit a 2)"
    using and_exp_eq_0_iff_not_bit [of a 2] by (simp add: and.commute)
qed

lemma other_bit_kept:
  assumes "u \<in> set kSectorFileTypes" "x \<in> set kSectorFileTypes" "u \<noteq> x"
  shows "(u AND ((a::SectorFileType) XOR x) = 0) = (u AND a = 0)"
  using assms unfolding kinds
  by (auto simp: bit_one_bit bit_simps)

lemma disjoint_bit:
  assumes "t \<in> set kSectorFileTypes" "t AND existing \<noteq> 0" "existing AND allocate = 0"
  shows "t AND allocate = 0"
proof -
  have "\<not> (bit existing n \<and> bit allocate n)" for n
  proof -
    from assms(3) have "bit (existing AND allocate) n = bit (0::SectorFileType) n" by simp
    then show ?thesis by (simp add: bit_and_iff)
  qed
  with assms(1,2) show ?thesis unfolding kinds by (auto simp: bit_one_bit)
qed

lemma set_get_other:
  assumes "u \<in> set kSectorFileTypes" "t \<in> set kSectorFileTypes" "t \<noteq> u"
  shows "getPathByType (setPathByType u p sp) t = getPathByType sp t"
  using assms unfolding kinds
  by (auto simp: getPathByType_def setPathByType_def FTUnsealed_def FTSealed_def FTCache_def)

lemma first_local_None:
  "(first_local ps infos = None)
   = list_all (\<lambda>i. ps (id' i) = None \<or> ps (id' i) = Some []) infos"
  by (induction infos) (auto split: option.splits)

lemma acquire_existing_keeps:
  assumes "t \<in> set kSectorFileTypes" "x \<in> set kSectorFileTypes"
    and "case storageFindSector ops sid t False (store_index st) of
           Inl e \<Rightarrow> True
         | Inr infos \<Rightarrow> list_all (\<lambda>i. store_paths st (id' i) = None \<or> store_paths st (id' i) = Some []) infos"
    and "acquire_existing ops st sid x (r, ex) = (r', ex')"
  shows "path_of r' t = path_of r t"
proof (cases "x = t")
  case True
  with assms(3,4) show ?thesis
    by (auto simp: acquire_existing_def first_local_None [symmetric] split: if_splits sum.splits option.splits)
next
  case False
  then have "t \<noteq> x" by simp
  with assms(4) set_get_other [OF assms(2,1)] show ?thesis
    by (auto simp: acquire_existing_def path_of_def split: if_splits sum.splits option.splits)
qed

lemma existing_loop_keeps:
  assumes "t \<in> set kSectorFileTypes"
    and "case storageFindSector ops sid t False (store_index st) of
           Inl e \<Rightarrow> True
         | Inr infos \<Rightarrow> list_all (\<lambda>i. store_paths st (id' i) = None \<or> store_paths st (id' i) = Some []) infos"
  shows "set ts \<subseteq> set kSectorFileTypes \<Longrightarrow>
         fold (acquire_existing ops st sid) ts (r, ex) = (r', ex') \<Longrightarrow> path_of r' t = path_of r t"
proof (induction ts arbitrary: r ex)
  case Nil
  then show ?case by simp
next
  case (Cons x xs)
  obtain r1 ex1 where step: "acquire_existing ops st sid x (r, ex) = (r1, ex1)"
    by (cases "acquire_existing ops st sid x (r, ex)")
  from Cons.prems(1) have x: "x \<in> set kSectorFileTypes" and xs: "set xs \<subseteq> set kSectorFileTypes"
    by simp_all
  from Cons.prems(2) step have "fold (acquire_existing ops st sid) xs (r1, ex1) = (r', ex')" by simp
  from Cons.IH [OF xs this] acquire_existing_keeps [OF assms(1) x assms(2) step]
  show ?case by simp
qed

lemma acquire_allocate_keeps:
  assumes "t \<in> set kSectorFileTypes" "x \<in> set kSectorFileTypes" "t AND a = 0"
    and "acquire_allocate ops st sid spt sealing x (r, a) = Inr (r', a')"
  shows "path_of r' t = path_of r t \<and> t AND a' = 0"
proof (cases "x AND a = 0")
  case True
  with assms(3,4) show ?thesis by (simp add: acquire_allocate_def)
next
  case False
  with assms(3) have "t \<noteq> x" by auto
  with assms(4) False set_get_other [OF assms(2,1)] other_bit_kept [OF assms(1,2), of a] assms(3)
  show ?thesis
    by (auto simp: acquire_allocate_def path_of_def split: if_splits sum.splits option.splits prod.splits)
qed

lemma allocate_loop_keeps:
  assumes "t \<in> set kSectorFileTypes"
  shows "set ts \<subseteq> set kSectorFileTypes \<Longrightarrow> t AND a = 0 \<Longrightarrow>
         try_fold (acquire_allocate ops st sid spt sealing) ts (r, a) = Inr (r', a') \<Longrightarrow>
         path_of r' t = path_of r t"
proof (induction ts arbitrary: r a)
  case Nil
  then show ?case by simp
next
  case (Cons x xs)
  from Cons.prems(1) have x: "x \<in> set kSectorFileTypes" and xs: "set xs \<subseteq> set kSectorFileTypes"
    by simp_all
  from Cons.prems(3) obtain r1 a1 where
    step: "acquire_allocate ops st sid spt sealing x (r, a) = Inr (r1, a1)" and
    rest: "try_fold (acquire_allocate ops st sid spt sealing) xs (r1, a1) = Inr (r', a')"
    by (auto split: sum.splits)
  from acquire_allocate_keeps [OF assms x Cons.prems(2) step]
  have "path_of r1 t = path_of r t" and "t AND a1 = 0" by simp_all
  with Cons.IH [OF xs _ rest] show ?case by simp
qed

lemma path_join_nonempty: "a \<noteq> [] \<Longrightarrow> path_join a b \<noteq> []"
  by (simp add: path_join_def)

lemma first_local_Some: "first_local ps infos = Some (i, p) \<Longrightarrow> p \<noteq> []"
  by (induction infos) (auto split: option.splits if_splits)

lemma acquire_allocate_fails:
  assumes "acquire_allocate ops st sid spt sealing x (r, a) = Inl e"
  shows "x AND a \<noteq> 0 \<and> unsatisfiable ops st spt sealing x e"
  using assms
  by (auto simp: acquire_allocate_def unsatisfiable_def first_local_None [symmetric] sectorPath_def
                 path_join_nonempty
           dest: first_local_Some split: if_splits sum.splits option.splits prod.splits)

lemma acquire_allocate_mask:
  assumes "acquire_allocate ops st sid spt sealing x (r, a) = Inr (r', a')"
  shows "a' = a \<or> a' = a XOR x"
  using assms
  by (auto simp: acquire_allocate_def split: if_splits sum.splits option.splits prod.splits)

lemma allocate_loop_fails:
  "set ts \<subseteq> set kSectorFileTypes \<Longrightarrow> distinct ts \<Longrightarrow>
   try_fold (acquire_allocate ops st sid spt sealing) ts (r, a) = Inl e \<Longrightarrow>
   \<exists>u. u \<in> set ts \<and> u AND a \<noteq> 0 \<and> unsatisfiable ops st spt sealing u e"
proof (induction ts arbitrary: r a)
  case Nil
  then show ?case by simp
next
  case (Cons x xs)
  from Cons.prems(1) have x: "x \<in> set kSectorFileTypes" and xs: "set xs \<subseteq> set kSectorFileTypes"
    by simp_all
  show ?case
  proof (cases "acquire_allocate ops st sid spt sealing x (r, a)")
    case (Inl e')
    with Cons.prems(3) have "e' = e" by simp
    with Inl acquire_allocate_fails [of ops st sid spt sealing x r a e] show ?thesis by auto
  next
    case (Inr acc)
    obtain r1 a1 where acc: "acc = (r1, a1)" by (cases acc)
    with Inr Cons.prems(3) have rest: "try_fold (acquire_allocate ops st sid spt sealing) xs (r1, a1) = Inl e"
      by simp
    from Cons.prems(2) have "distinct xs" by simp
    from Cons.IH [OF xs this rest] obtain u where
      u: "u \<in> set xs" "u AND a1 \<noteq> 0" "unsatisfiable ops st spt sealing u e" by blast
    from u(1) Cons.prems(2) have "u \<noteq> x" by auto
    from u(1) xs have "u \<in> set kSectorFileTypes" by auto
    from other_bit_kept [OF this x \<open>u \<noteq> x\<close>, of a] acquire_allocate_mask [of ops st sid spt sealing x r a r1 a1]
      Inr acc u(2)
    have "u AND a \<noteq> 0" by auto
    with u show ?thesis by auto
  qed
qed

text \<open>
  C10.  Let the masks be disjoint and let \<open>t\<close> be a bit of \<open>existing\<close> for which the
  lookup in the index fails or lists no storage with a non-empty local path.  Then
  \<^verbatim>\<open>acquireSector\<close> does not fail because of \<open>t\<close>: if it succeeds, the response has no
  path and no storage for \<open>t\<close>; if it fails, then because some bit of \<open>allocate\<close> is
  unsatisfiable, with \<open>NotFoundPath\<close> when no candidate has a local path (an error of the
  index's \<^verbatim>\<open>storageBestAlloc\<close> is handed up as it is).
\<close>

theorem acquireSector_missing_existing:
  assumes "existing AND allocate = 0"
    and "t \<in> set kSectorFileTypes" and "t AND existing \<noteq> 0"
    and "case storageFindSector ops sid t False (store_index st) of
           Inl e \<Rightarrow> True
         | Inr infos \<Rightarrow> list_all (\<lambda>i. store_paths st (id' i) = None \<or> store_paths st (id' i) = Some []) infos"
  shows "case acquireSector ops st sid spt existing allocate sealing of
           Inr response \<Rightarrow>
             getPathByType (paths response) t = Inr [] \<and> getPathByType (stores response) t = Inr []
         | Inl e \<Rightarrow>
             \<exists>u. u \<in> set kSectorFileTypes \<and> u AND allocate \<noteq> 0 \<and> unsatisfiable ops st spt sealing u e"
proof -
  let ?start = "\<lparr>paths = no_paths, stores = no_paths\<rparr>"
  obtain found ex' where
    first: "fold (acquire_existing ops st sid) kSectorFileTypes (?start, existing) = (found, ex')"
    by (cases "fold (acquire_existing ops st sid) kSectorFileTypes (?start, existing)")
  have start: "path_of ?start t = (Inr [], Inr [])"
    using assms(2) unfolding kinds
    by (auto simp: path_of_def getPathByType_def no_paths_def FTUnsealed_def FTSealed_def FTCache_def)
  from existing_loop_keeps [OF assms(2,4) _ first] start
  have found: "path_of found t = (Inr [], Inr [])" by simp
  have ta: "t AND allocate = 0" by (rule disjoint_bit [OF assms(2,3,1)])
  have dist: "distinct kSectorFileTypes"
    by (simp add: kSectorFileTypes_def FTUnsealed_def FTSealed_def FTCache_def)
  have not_shared: "\<not> (existing OR allocate) \<noteq> (existing XOR allocate)"
    using assms(1) by (simp add: or_neq_xor_iff)
  show ?thesis
  proof (cases "try_fold (acquire_allocate ops st sid spt sealing) kSectorFileTypes (found, allocate)")
    case (Inl e)
    from allocate_loop_fails [OF _ dist Inl] obtain u where
      "u \<in> set kSectorFileTypes" "u AND allocate \<noteq> 0" "unsatisfiable ops st spt sealing u e"
      by auto
    moreover from Inl first not_shared
    have "acquireSector ops st sid spt existing allocate sealing = Inl e"
      by (simp add: acquireSector_def acquireSectorWithoutLock_def)
    ultimately show ?thesis by auto
  next
    case (Inr acc)
    obtain response a' where acc: "acc = (response, a')" by (cases acc)
    from allocate_loop_keeps [OF assms(2) _ ta, of kSectorFileTypes ops st sid spt sealing found response a']
      Inr acc found
    have "path_of response t = (Inr [], Inr [])" by simp
    moreover from Inr acc first not_shared
    have "acquireSector ops st sid spt existing allocate sealing = Inr response"
      by (simp add: acquireSector_def acquireSectorWithoutLock_def)
    ultimately show ?thesis by (simp add: path_of_def)
  qed
qed

theorem acquireSector_missing_existing_witness:
  "FTCache AND (FTUnsealed OR FTSealed) = 0
   \<and> FTCache \<in> set kSectorFileTypes
   \<and> storageFindSector (SectorIndexImpl example_space) sector7 FTCache False (store_index move_store) = Inr []
   \<and> acquireSector (SectorIndexImpl example_space) move_store sector7 0 FTCache (FTUnsealed OR FTSealed) True
       = Inr \<lparr>paths = \<lparr>unsealed = ''/mnt/seal/unsealed/s-t01000-7'',
                        sealed = ''/mnt/seal/sealed/s-t01000-7'', cache = []\<rparr>,
              stores = \<lparr>unsealed = ''s1'', sealed = ''s1'', cache = []\<rparr>\<rparr>
   \<and> (case acquireSector (SectorIndexImpl example_space) move_store sector7 0 FTCache
               (FTUnsealed OR FTSealed) True of
         Inr response \<Rightarrow>
           getPathByType (paths response) FTCache = Inr [] \<and> getPathByType (stores response) FTCache = Inr []
       | Inl e \<Rightarrow>
           \<exists>u. u \<in> set kSectorFileTypes \<and> u AND (FTUnsealed OR FTSealed) \<noteq> 0 \<and>
               unsatisfiable (SectorIndexImpl example_space) move_store 0 True u e)"
proof -
  have 1: "FTCache AND (FTUnsealed OR FTSealed) = 0" by (simp add: type_defs)
  have 2: "FTCache \<in> set kSectorFileTypes" by (simp add: kSectorFileTypes_def)
  have 3: "FTCache AND FTCache \<noteq> 0" by (simp add: type_defs)
  have 4: "storageFindSector (SectorIndexImpl example_space) sector7 FTCache False (store_index move_store)
           = Inr []"
    by (simp add: index_defs type_defs move_store_def move_index_def seal_storage_def long_term_storage_def)
  have 5: "acquireSector (SectorIndexImpl example_space) move_store sector7 0 FTCache (FTUnsealed OR FTSealed) True
       = Inr \<lparr>paths = \<lparr>unsealed = ''/mnt/seal/unsealed/s-t01000-7'',
                        sealed = ''/mnt/seal/sealed/s-t01000-7'', cache = []\<rparr>,
              stores = \<lparr>unsealed = ''s1'', sealed = ''s1'', cache = []\<rparr>\<rparr>"
    by (simp add: acquireSector_def acquire_defs index_defs type_defs path_defs
        move_store_def move_index_def seal_storage_def long_term_storage_def)
  have 6: "case storageFindSector (SectorIndexImpl example_space) sector7 FTCache False (store_index move_store) of
             Inl e \<Rightarrow> True
           | Inr infos \<Rightarrow> list_all (\<lambda>i. store_paths move_store (id' i) = None
                                       \<or> store_paths move_store (id' i) = Some []) infos"
    by (simp add: 4)
  from acquireSector_missing_existing [OF 1 2 3 6, of 0 True] 1 2 4 5 show ?thesis by simp
qed

section \<open>Properties of the provider\<close>

subsection \<open>Terminal states\<close>

lemma from_sets_non_terminal:
  "tr \<in> set makeFSMTransitions \<Longrightarrow> s \<in> set (expand (from_set tr)) \<Longrightarrow> \<not> is_terminal s"
  by (auto simp: makeFSMTransitions_def transition_def expand_def is_terminal_def terminal_states_def)

text \<open>
  C7.  No transition of the provider's table leaves a terminal state: for every
  transition of \<^verbatim>\<open>makeFSMTransitions\<close>, the states it is legal from, with \<^verbatim>\<open>fromAny\<close>
  expanded to the non-terminal states, contain none of completed, error, expired,
  slashed and rejected.
\<close>

theorem provider_transitions_from_non_terminal:
  "\<forall>tr \<in> set makeFSMTransitions. \<forall>s \<in> set (expand (from_set tr)). \<not> is_terminal s"
  using from_sets_non_terminal by blast

theorem provider_transitions_witness:
  "makeFSMTransitions ! 1 \<in> set makeFSMTransitions
   \<and> from_set (makeFSMTransitions ! 1) = FromAny
   \<and> STORAGE_DEAL_ACTIVE \<in> set (expand (from_set (makeFSMTransitions ! 1)))
   \<and> \<not> is_terminal STORAGE_DEAL_ACTIVE"
proof -
  have 1: "makeFSMTransitions ! 1 \<in> set makeFSMTransitions"
    by (simp add: makeFSMTransitions_def)
  have 2: "from_set (makeFSMTransitions ! 1) = FromAny"
    by (simp add: makeFSMTransitions_def transition_def)
  have 3: "STORAGE_DEAL_ACTIVE \<in> set (expand (from_set (makeFSMTransitions ! 1)))"
    using 2 by (simp add: expand_def all_states_def is_terminal_def terminal_states_def)
  from provider_transitions_from_non_terminal 1 3 have "\<not> is_terminal STORAGE_DEAL_ACTIVE"
    by blast
  with 1 2 3 show ?thesis by simp
qed

text \<open>Hence the machine drops every event for a deal in a terminal state.\<close>

lemma legal_not_terminal:
  assumes "is_terminal s"
  shows "find (legal event s) makeFSMTransitions = None"
proof -
  have "\<not> legal event s tr" if "tr \<in> set makeFSMTransitions" for tr
    using from_sets_non_terminal [OF that] assms by (auto simp: legal_def)
  then show ?thesis by (simp add: find_None_iff)
qed

lemma fsm_dispatch_terminal:
  assumes "local_deals st c = Some deal" and "is_terminal (state deal)"
  shows "fsm_dispatch env c event st = st"
  using assms by (simp add: fsm_dispatch_def legal_not_terminal)

lemma fsm_steps_idle: "fsm_queue st = [] \<Longrightarrow> fsm_steps n env st = st"
  by (induction n) (simp_all add: fsm_step_def)

subsection \<open>The validating action\<close>

lemma find_open:
  "find (legal ProviderEventOpen STORAGE_DEAL_UNKNOWN) makeFSMTransitions
   = Some (transition ProviderEventOpen (From [STORAGE_DEAL_UNKNOWN])
        STORAGE_DEAL_VALIDATING (CALLBACK_ACTION onProviderEventOpen))"
  by (simp add: makeFSMTransitions_def legal_def transition_def expand_def)

lemma find_accepted:
  "find (legal ProviderEventDealAccepted STORAGE_DEAL_VALIDATING) makeFSMTransitions
   = Some (transition ProviderEventDealAccepted (From [STORAGE_DEAL_VALIDATING])
        STORAGE_DEAL_PROPOSAL_ACCEPTED (CALLBACK_ACTION onProviderEventDealAccepted))"
  by (simp add: makeFSMTransitions_def legal_def transition_def expand_def)

text \<open>
  C1.  The validating action does not validate.  Whatever the proposal says (piece size,
  provider, signature), the deal that \<^verbatim>\<open>handleDealStream\<close> opens goes from unknown to
  validating and from there to proposal accepted: \<^verbatim>\<open>onProviderEventOpen\<close> sends
  \<^verbatim>\<open>ProviderEventDealAccepted\<close> and nothing else.  The claim asks for a transition to
  failing when the piece is larger than a sector.
\<close>

theorem validating_accepts_every_proposal:
  assumes "getProposalCid env (deal_proposal p) = Inr c" and "fsm_queue st = []"
  shows "deal_state (fsm_steps 1 env (handleDealStream env p peer st)) c = Some STORAGE_DEAL_VALIDATING
       \<and> deal_state (fsm_steps 2 env (handleDealStream env p peer st)) c
           = Some STORAGE_DEAL_PROPOSAL_ACCEPTED"
  using assms
  by (simp add: numeral_2_eq_2 handleDealStream_def fsm_send_def fsm_step_def fsm_dispatch_def
      find_open find_accepted transition_def CALLBACK_ACTION_def onProviderEventOpen_def
      onProviderEventDealAccepted_def deal_state_def)

text \<open>The same at a proposal with a piece of 4096 bytes, twice the 2 KiB sector of the
  provider, addressed to another miner and with a signature nobody checked.\<close>

theorem validating_accepts_oversized_piece:
  "getProposalCid (example_env None) (deal_proposal oversized_proposal) = Inr ''bafy-forged''
   \<and> piece_size (proposal (deal_proposal oversized_proposal)) = 4096
   \<and> provider (proposal (deal_proposal oversized_proposal)) = ''t02000''
   \<and> deal_state (fsm_steps 1 (example_env None)
        (handleDealStream (example_env None) oversized_proposal ''client-peer'' no_deals)) ''bafy-forged''
       = Some STORAGE_DEAL_VALIDATING
   \<and> deal_state (fsm_steps 2 (example_env None)
        (handleDealStream (example_env None) oversized_proposal ''client-peer'' no_deals)) ''bafy-forged''
       = Some STORAGE_DEAL_PROPOSAL_ACCEPTED"
proof -
  have 1: "getProposalCid (example_env None) (deal_proposal oversized_proposal) = Inr ''bafy-forged''"
    by (simp add: example_env_def oversized_proposal_def)
  have 2: "fsm_queue no_deals = []" by (simp add: no_deals_def)
  have 3: "piece_size (proposal (deal_proposal oversized_proposal)) = 4096"
    "provider (proposal (deal_proposal oversized_proposal)) = ''t02000''"
    by (simp_all add: oversized_proposal_def)
  from validating_accepts_every_proposal [OF 1 2, of "''client-peer''"] 1 3 show ?thesis by simp
qed

subsection \<open>importDataForDeal: bytes with another commitment\<close>

text \<open>
  C2, as amended.  When the commitment computed from the imported bytes differs from the
  piece CID of the proposal, \<^verbatim>\<open>importDataForDeal\<close> returns the error
  \<open>PIECE_CID_DOESNT_MATCH\<close> to its caller and changes nothing: no event is sent to the
  state machine, and the deal record keeps its state and its message.
\<close>

theorem importDataForDeal_mismatch:
  assumes "local_deals st c = Some deal"
    and "generatePieceCommitment env (registered_proof env) data = Inr (commp, unpadded)"
    and "commp \<noteq> piece_cid (proposal (client_deal_proposal deal))"
  shows "importDataForDeal env c data st = (Inl (ProviderError PIECE_CID_DOESNT_MATCH), st)"
  using assms by (simp add: importDataForDeal_def getDeal_def)

text \<open>
  The claim as stated fails: for a deal that waits for its data and bytes with another
  commitment, the call returns the error, and the deal is in state waiting for data
  afterwards, also after the machine has run, with an empty message; it is not failing.
\<close>

theorem importDataForDeal_mismatch_stays_waiting:
  "fst (importDataForDeal (example_env None) ''bafy-forged'' [] waiting_provider)
     = Inl (ProviderError PIECE_CID_DOESNT_MATCH)
   \<and> deal_state (snd (importDataForDeal (example_env None) ''bafy-forged'' [] waiting_provider)) ''bafy-forged''
     = Some STORAGE_DEAL_WAITING_FOR_DATA
   \<and> deal_state (fsm_steps 5 (example_env None)
        (snd (importDataForDeal (example_env None) ''bafy-forged'' [] waiting_provider))) ''bafy-forged''
     = Some STORAGE_DEAL_WAITING_FOR_DATA
   \<and> map_option message
        (local_deals (snd (importDataForDeal (example_env None) ''bafy-forged'' [] waiting_provider)) ''bafy-forged'')
     = Some []"
  by (simp add: importDataForDeal_def getDeal_def example_env_def waiting_provider_def waiting_deal_def
      oversized_proposal_def deal_state_def fsm_steps_idle)

theorem importDataForDeal_mismatch_witness:
  "local_deals waiting_provider ''bafy-forged'' = Some waiting_deal
   \<and> generatePieceCommitment (example_env None) (registered_proof (example_env None)) []
       = Inr (''baga6ea4seaq-empty'', 0)
   \<and> piece_cid (proposal (client_deal_proposal waiting_deal)) = ''baga6ea4seaq-piece''
   \<and> importDataForDeal (example_env None) ''bafy-forged'' [] waiting_provider
       = (Inl (ProviderError PIECE_CID_DOESNT_MATCH), waiting_provider)"
proof -
  have 1: "local_deals waiting_provider ''bafy-forged'' = Some waiting_deal"
    by (simp add: waiting_provider_def)
  have 2: "generatePieceCommitment (example_env None) (registered_proof (example_env None)) []
       = Inr (''baga6ea4seaq-empty'', 0)"
    by (simp add: example_env_def)
  have 3: "piece_cid (proposal (client_deal_proposal waiting_deal)) = ''baga6ea4seaq-piece''"
    by (simp add: waiting_deal_def oversized_proposal_def)
  have 4: "''baga6ea4seaq-empty'' \<noteq> piece_cid (proposal (client_deal_proposal waiting_deal))"
    by (simp add: 3)
  from importDataForDeal_mismatch [OF 1 2 4] 1 2 3 show ?thesis by simp
qed

subsection \<open>Ensuring the funds of the provider\<close>

lemma find_verified:
  "s = STORAGE_DEAL_VERIFY_DATA \<or> s = STORAGE_DEAL_WAITING_FOR_DATA \<Longrightarrow>
   find (legal ProviderEventVerifiedData s) makeFSMTransitions
   = Some (transition ProviderEventVerifiedData
        (From [STORAGE_DEAL_VERIFY_DATA, STORAGE_DEAL_WAITING_FOR_DATA])
        STORAGE_DEAL_ENSURE_PROVIDER_FUNDS (CALLBACK_ACTION onProviderEventVerifiedData))"
  by (auto simp: makeFSMTransitions_def legal_def transition_def expand_def)

lemma find_funding:
  "find (legal ProviderEventFundingInitiated STORAGE_DEAL_ENSURE_PROVIDER_FUNDS) makeFSMTransitions
   = Some (transition ProviderEventFundingInitiated (From [STORAGE_DEAL_ENSURE_PROVIDER_FUNDS])
        STORAGE_DEAL_PROVIDER_FUNDING (CALLBACK_ACTION onProviderEventFundingInitiated))"
  by (simp add: makeFSMTransitions_def legal_def transition_def expand_def)

text \<open>
  C3.  The action on verified data sends \<^verbatim>\<open>ProviderEventFundingInitiated\<close> in both
  branches.  When \<^verbatim>\<open>MarketEnsureAvailable\<close> returns a CID it is recorded in
  \<open>add_funds_cid\<close> and the deal enters provider funding, as claimed; when it returns
  none, the deal enters provider funding all the same, where the claim asks for the direct
  transition to publish that the table offers (\<^verbatim>\<open>ProviderEventFunded\<close> from ensure
  provider funds).
\<close>

theorem ensure_funds_enters_provider_funding:
  assumes "local_deals st c = Some deal"
    and "state deal = STORAGE_DEAL_VERIFY_DATA \<or> state deal = STORAGE_DEAL_WAITING_FOR_DATA"
    and "fsm_queue st = [(c, ProviderEventVerifiedData)]"
    and "ensureFunds env deal = Inr maybe_cid"
  shows "deal_state (fsm_steps 1 env st) c = Some STORAGE_DEAL_ENSURE_PROVIDER_FUNDS
       \<and> fsm_queue (fsm_steps 1 env st) = [(c, ProviderEventFundingInitiated)]
       \<and> deal_state (fsm_steps 2 env st) c = Some STORAGE_DEAL_PROVIDER_FUNDING
       \<and> map_option add_funds_cid (local_deals (fsm_steps 2 env st) c)
           = Some (case maybe_cid of None \<Rightarrow> add_funds_cid deal | Some funding \<Rightarrow> Some funding)"
  using assms
  by (cases maybe_cid)
     (simp_all add: numeral_2_eq_2 fsm_step_def fsm_dispatch_def find_verified find_funding
        transition_def CALLBACK_ACTION_def onProviderEventVerifiedData_def
        onProviderEventFundingInitiated_def deal_state_def)

text \<open>The same at a node that sends no funding message.\<close>

theorem no_funding_message_enters_provider_funding:
  "ensureFunds (example_env None) waiting_deal = Inr None
   \<and> deal_state (fsm_steps 1 (example_env None) verified_provider) ''bafy-forged''
       = Some STORAGE_DEAL_ENSURE_PROVIDER_FUNDS
   \<and> fsm_queue (fsm_steps 1 (example_env None) verified_provider)
       = [(''bafy-forged'', ProviderEventFundingInitiated)]
   \<and> deal_state (fsm_steps 2 (example_env None) verified_provider) ''bafy-forged''
       = Some STORAGE_DEAL_PROVIDER_FUNDING"
proof -
  have 1: "local_deals verified_provider ''bafy-forged'' = Some waiting_deal"
    by (simp add: verified_provider_def)
  have 2: "state waiting_deal = STORAGE_DEAL_VERIFY_DATA \<or> state waiting_deal = STORAGE_DEAL_WAITING_FOR_DATA"
    by (simp add: waiting_deal_def)
  have 3: "fsm_queue verified_provider = [(''bafy-forged'', ProviderEventVerifiedData)]"
    by (simp add: verified_provider_def)
  have 4: "ensureFunds (example_env None) waiting_deal = Inr None"
    by (simp add: ensureFunds_def example_env_def)
  from ensure_funds_enters_provider_funding [OF 1 2 3 4] 4 show ?thesis by simp
qed

section \<open>Properties of the chain-event watcher\<close>

lemma onHeadChanges_observed: "onHeadChanges changes st = fold onMessage (observed changes) st"
  unfolding onHeadChanges_def observed_def
  by (induction changes arbitrary: st) (simp_all add: onHeadChange_def)

lemma pre_commit_at_append:
  "pre_commit_at evs prov deal s i \<Longrightarrow> pre_commit_at (evs @ [e]) prov deal s i"
  by (auto simp: pre_commit_at_def nth_append)

lemma commit_seen_append: "commit_seen evs prov deal \<Longrightarrow> commit_seen (evs @ [e]) prov deal"
  unfolding commit_seen_def
  by (metis pre_commit_at_append length_append_singleton less_Suc_eq nth_append)

lemma watch_inv_mono:
  assumes "watch_inv evs prov deal p st"
  shows "watch_inv (evs @ [e]) prov deal p st"
proof -
  have a: "\<exists>i. pre_commit_at (evs @ [e]) prov deal s i" if "\<exists>i. pre_commit_at evs prov deal s i" for s
    using that pre_commit_at_append by blast
  have b: "commit_seen (evs @ [e]) prov deal" if "commit_seen evs prov deal"
    using that by (rule commit_seen_append)
  from assms show ?thesis
    unfolding watch_inv_def using a b by blast
qed

lemma watch_inv_step:
  assumes "watch_inv evs prov deal p st"
  shows "watch_inv (evs @ [e]) prov deal p (onMessage e st)"
proof -
  obtain ty m where e: "e = (ty, m)" by (cases e)
  from assms have
    w: "\<And>w. w \<in> set (watched st) \<Longrightarrow> result w = p \<Longrightarrow>
          watch_provider w = prov \<and> watch_deal_id w = deal \<and>
          (\<forall>s. sector_number w = Some s \<longrightarrow> (\<exists>i. pre_commit_at evs prov deal s i))"
    and r: "p \<in> set (resolved st) \<Longrightarrow> commit_seen evs prov deal"
    and k: "p \<in> set (resolved st) \<or> p \<in> set (map result (watched st))"
    by (auto simp: watch_inv_def)
  show ?thesis
  proof (cases ty)
    case APPLY
    show ?thesis
    proof (cases "msg_call m")
      case (PreCommitSector info)
      have here: "pre_commit_at (evs @ [e]) prov deal (sector_no info) (length evs)"
        if "msg_to m = prov" "deal \<in> set (deal_ids info)"
      proof -
        from that(1) PreCommitSector have "m = \<lparr>msg_to = prov, msg_call = PreCommitSector info\<rparr>"
          by (cases m) simp
        with e APPLY have "(evs @ [e]) ! length evs
            = (APPLY, \<lparr>msg_to = prov, msg_call = PreCommitSector info\<rparr>)"
          by simp
        with that(2) show ?thesis unfolding pre_commit_at_def by auto
      qed
      have st': "onMessage e st = st\<lparr>watched := map (pre_commit (msg_to m) info) (watched st)\<rparr>"
        using e APPLY PreCommitSector by (simp add: onMessage_def)
      have 1: "watch_provider w' = prov \<and> watch_deal_id w' = deal \<and>
          (\<forall>s. sector_number w' = Some s \<longrightarrow> (\<exists>i. pre_commit_at (evs @ [e]) prov deal s i))"
        if "w' \<in> set (watched (onMessage e st))" "result w' = p" for w'
      proof -
        from that(1) st' obtain w0 where w0: "w0 \<in> set (watched st)" "w' = pre_commit (msg_to m) info w0"
          by auto
        with that(2) have "result w0 = p" by (auto simp: pre_commit_def split: if_splits)
        from w [OF w0(1) this] w0(2) here show ?thesis
          by (auto simp: pre_commit_def intro: pre_commit_at_append split: if_splits)
      qed
      have 2: "p \<in> set (resolved (onMessage e st)) \<Longrightarrow> commit_seen (evs @ [e]) prov deal"
        using r st' by (auto intro: commit_seen_append)
      have "result \<circ> pre_commit (msg_to m) info = result"
        by (auto simp: pre_commit_def fun_eq_iff)
      then have 3: "p \<in> set (resolved (onMessage e st)) \<or> p \<in> set (map result (watched (onMessage e st)))"
        using k st' by simp
      from 1 2 3 show ?thesis unfolding watch_inv_def by blast
    next
      case (ProveCommitSector s)
      have st': "onMessage e st =
          st\<lparr>resolved := resolved st @ map result (filter (committed (msg_to m) s) (watched st)),
             watched := filter (\<lambda>w. \<not> committed (msg_to m) s w) (watched st)\<rparr>"
        using e APPLY ProveCommitSector by (simp add: onMessage_def)
      have 1: "watch_provider w' = prov \<and> watch_deal_id w' = deal \<and>
          (\<forall>s. sector_number w' = Some s \<longrightarrow> (\<exists>i. pre_commit_at (evs @ [e]) prov deal s i))"
        if "w' \<in> set (watched (onMessage e st))" "result w' = p" for w'
        using w [of w'] that st' by (auto intro: pre_commit_at_append)
      have 2: "commit_seen (evs @ [e]) prov deal" if "p \<in> set (resolved (onMessage e st))"
      proof (cases "p \<in> set (resolved st)")
        case True
        with r show ?thesis by (auto intro: commit_seen_append)
      next
        case False
        with that st' obtain w0 where w0: "w0 \<in> set (watched st)" "committed (msg_to m) s w0" "result w0 = p"
          by auto
        from w [OF w0(1,3)] have a: "watch_provider w0 = prov"
          and b: "\<forall>s. sector_number w0 = Some s \<longrightarrow> (\<exists>i. pre_commit_at evs prov deal s i)"
          by simp_all
        from w0(2) have c: "watch_provider w0 = msg_to m" and d: "sector_number w0 = Some s"
          by (simp_all add: committed_def)
        from b d obtain i where i: "pre_commit_at evs prov deal s i" by blast
        from a c have "msg_to m = prov" by simp
        with ProveCommitSector have "m = \<lparr>msg_to = prov, msg_call = ProveCommitSector s\<rparr>"
          by (cases m) simp
        with e APPLY have "(evs @ [e]) ! length evs
            = (APPLY, \<lparr>msg_to = prov, msg_call = ProveCommitSector s\<rparr>)"
          by simp
        moreover from i have "i < length evs" by (simp add: pre_commit_at_def)
        ultimately show ?thesis
          unfolding commit_seen_def
          using pre_commit_at_append [OF i, of e]
          by (intro exI [of _ i] exI [of _ "length evs"] exI [of _ s]) simp
      qed
      have 3: "p \<in> set (resolved (onMessage e st)) \<or> p \<in> set (map result (watched (onMessage e st)))"
        using k st' by auto
      from 1 2 3 show ?thesis unfolding watch_inv_def by blast
    next
      case (OtherMethod n)
      then have "onMessage e st = st" using e APPLY by (simp add: onMessage_def)
      with watch_inv_mono [OF assms] show ?thesis by simp
    qed
  next
    case REVERT
    show ?thesis
    proof (cases "msg_call m")
      case (PreCommitSector info)
      have st': "onMessage e st = st\<lparr>watched := map (revert_pre_commit (msg_to m) info) (watched st)\<rparr>"
        using e REVERT PreCommitSector by (simp add: onMessage_def)
      have 1: "watch_provider w' = prov \<and> watch_deal_id w' = deal \<and>
          (\<forall>s. sector_number w' = Some s \<longrightarrow> (\<exists>i. pre_commit_at (evs @ [e]) prov deal s i))"
        if "w' \<in> set (watched (onMessage e st))" "result w' = p" for w'
      proof -
        from that(1) st' obtain w0 where
          w0: "w0 \<in> set (watched st)" "w' = revert_pre_commit (msg_to m) info w0"
          by auto
        with that(2) have "result w0 = p" by (auto simp: revert_pre_commit_def split: if_splits)
        from w [OF w0(1) this] w0(2) show ?thesis
          by (auto simp: revert_pre_commit_def intro: pre_commit_at_append split: if_splits)
      qed
      have 2: "p \<in> set (resolved (onMessage e st)) \<Longrightarrow> commit_seen (evs @ [e]) prov deal"
        using r st' by (auto intro: commit_seen_append)
      have "result \<circ> revert_pre_commit (msg_to m) info = result"
        by (auto simp: revert_pre_commit_def fun_eq_iff)
      then have 3: "p \<in> set (resolved (onMessage e st)) \<or> p \<in> set (map result (watched (onMessage e st)))"
        using k st' by simp
      from 1 2 3 show ?thesis unfolding watch_inv_def by blast
    next
      case (ProveCommitSector s)
      then have "onMessage e st = st" using e REVERT by (simp add: onMessage_def)
      with watch_inv_mono [OF assms] show ?thesis by simp
    next
      case (OtherMethod n)
      then have "onMessage e st = st" using e REVERT by (simp add: onMessage_def)
      with watch_inv_mono [OF assms] show ?thesis by simp
    qed
  qed
qed

lemma watch_inv_fold:
  "watch_inv [] prov deal p st \<Longrightarrow> watch_inv evs prov deal p (fold onMessage evs st)"
proof (induction evs rule: rev_induct)
  case Nil
  then show ?case by simp
next
  case (snoc e evs)
  then show ?case by (simp add: watch_inv_step)
qed

lemma watch_inv_start:
  assumes "events_ok st0" and "onDealSectorCommitted prov deal st0 = (p, st1)"
  shows "watch_inv [] prov deal p st1"
proof -
  from assms(2) have p: "p = promises st0" and
    st1: "st1 = st0\<lparr>watched := watched st0 @
            [\<lparr>watch_provider = prov, watch_deal_id = deal, sector_number = None, result = promises st0\<rparr>],
          promises := Suc (promises st0)\<rparr>"
    by (auto simp: onDealSectorCommitted_def)
  from assms(1) have old: "\<And>w. w \<in> set (watched st0) \<Longrightarrow> result w \<noteq> p"
    and res: "p \<notin> set (resolved st0)"
    unfolding events_ok_def list_all_iff p by fastforce+
  have "w \<in> set (watched st1) \<Longrightarrow> result w = p \<Longrightarrow>
      w = \<lparr>watch_provider = prov, watch_deal_id = deal, sector_number = None, result = promises st0\<rparr>" for w
    using old st1 by auto
  then have 1: "\<forall>w \<in> set (watched st1). result w = p \<longrightarrow>
          watch_provider w = prov \<and> watch_deal_id w = deal \<and>
          (\<forall>s. sector_number w = Some s \<longrightarrow> (\<exists>i. pre_commit_at [] prov deal s i))"
    by fastforce
  from res st1 have 2: "p \<notin> set (resolved st1)" by simp
  from st1 p have 3: "p \<in> set (map result (watched st1))" by simp
  from 1 2 3 show ?thesis unfolding watch_inv_def by blast
qed

text \<open>
  C6.  Let \<open>p\<close> be the promise that \<^verbatim>\<open>onDealSectorCommitted\<close> returns for a provider and
  a deal, and let any head changes follow.  If the promise is resolved afterwards, then
  among the observed messages there is an applied \<^verbatim>\<open>PreCommitSector\<close> to the provider
  that lists the deal and, later, an applied \<^verbatim>\<open>ProveCommitSector\<close> to the provider with
  the sector number of that pre-commit.  Otherwise the promise is still watched, that is,
  pending; so it is after a \<^verbatim>\<open>ProveCommitSector\<close> with no pre-commit for the deal
  before it.
\<close>

theorem onDealSectorCommitted_resolves_after_commit:
  assumes "events_ok st0" and "onDealSectorCommitted prov deal st0 = (p, st1)"
  shows "if p \<in> set (resolved (onHeadChanges changes st1))
         then \<exists>i j info. i < j \<and> j < length (observed changes) \<and>
                observed changes ! i = (APPLY, \<lparr>msg_to = prov, msg_call = PreCommitSector info\<rparr>) \<and>
                deal \<in> set (deal_ids info) \<and>
                observed changes ! j
                  = (APPLY, \<lparr>msg_to = prov, msg_call = ProveCommitSector (sector_no info)\<rparr>)
         else p \<in> set (map result (watched (onHeadChanges changes st1)))"
proof -
  from watch_inv_fold [OF watch_inv_start [OF assms], of "observed changes"]
  have inv: "watch_inv (observed changes) prov deal p (onHeadChanges changes st1)"
    by (simp add: onHeadChanges_observed)
  show ?thesis
  proof (cases "p \<in> set (resolved (onHeadChanges changes st1))")
    case True
    with inv have "commit_seen (observed changes) prov deal" by (simp add: watch_inv_def)
    then obtain i j s info where "i < j" "j < length (observed changes)"
      "observed changes ! i = (APPLY, \<lparr>msg_to = prov, msg_call = PreCommitSector info\<rparr>)"
      "deal \<in> set (deal_ids info)" "sector_no info = s"
      "observed changes ! j = (APPLY, \<lparr>msg_to = prov, msg_call = ProveCommitSector s\<rparr>)"
      unfolding commit_seen_def pre_commit_at_def by blast
    with True show ?thesis by auto
  next
    case False
    with inv show ?thesis by (simp add: watch_inv_def)
  qed
qed

text \<open>The two cases of the watcher's scenario: the pre-commit of sector 13 for deal 1
  followed by the prove-commit resolves the promise; the prove-commit alone leaves it
  pending.\<close>

theorem onDealSectorCommitted_witness:
  "events_ok new_events
   \<and> fst (onDealSectorCommitted ''t01'' 1 new_events) = 0
   \<and> 0 \<in> set (resolved (onHeadChanges [commit_change] (snd (onDealSectorCommitted ''t01'' 1 new_events))))
   \<and> (\<exists>i j info. i < j \<and> j < length (observed [commit_change]) \<and>
         observed [commit_change] ! i = (APPLY, \<lparr>msg_to = ''t01'', msg_call = PreCommitSector info\<rparr>) \<and>
         1 \<in> set (deal_ids info) \<and>
         observed [commit_change] ! j
           = (APPLY, \<lparr>msg_to = ''t01'', msg_call = ProveCommitSector (sector_no info)\<rparr>))
   \<and> 0 \<notin> set (resolved (onHeadChanges [prove_only_change] (snd (onDealSectorCommitted ''t01'' 1 new_events))))
   \<and> 0 \<in> set (map result
         (watched (onHeadChanges [prove_only_change] (snd (onDealSectorCommitted ''t01'' 1 new_events)))))"
proof -
  have ok: "events_ok new_events" by (simp add: events_ok_def new_events_def)
  have sub: "onDealSectorCommitted ''t01'' 1 new_events
      = (0, snd (onDealSectorCommitted ''t01'' 1 new_events))"
    by (simp add: onDealSectorCommitted_def new_events_def)
  have yes: "0 \<in> set (resolved (onHeadChanges [commit_change]
      (snd (onDealSectorCommitted ''t01'' 1 new_events))))"
    by (simp add: onHeadChanges_def onHeadChange_def messages_def onMessage_def pre_commit_def
        committed_def onDealSectorCommitted_def new_events_def pre_commit_message_def
        prove_commit_message_def commit_change_def prove_only_change_def)
  have no: "0 \<notin> set (resolved (onHeadChanges [prove_only_change]
      (snd (onDealSectorCommitted ''t01'' 1 new_events))))"
    by (simp add: onHeadChanges_def onHeadChange_def messages_def onMessage_def pre_commit_def
        committed_def onDealSectorCommitted_def new_events_def pre_commit_message_def
        prove_commit_message_def commit_change_def prove_only_change_def)
  from onDealSectorCommitted_resolves_after_commit [OF ok sub, of "[commit_change]"] yes
  have 1: "\<exists>i j info. i < j \<and> j < length (observed [commit_change]) \<and>
         observed [commit_change] ! i = (APPLY, \<lparr>msg_to = ''t01'', msg_call = PreCommitSector info\<rparr>) \<and>
         1 \<in> set (deal_ids info) \<and>
         observed [commit_change] ! j
           = (APPLY, \<lparr>msg_to = ''t01'', msg_call = ProveCommitSector (sector_no info)\<rparr>)"
    by simp
  from onDealSectorCommitted_resolves_after_commit [OF ok sub, of "[prove_only_change]"] no
  have 2: "0 \<in> set (map result
         (watched (onHeadChanges [prove_only_change] (snd (onDealSectorCommitted ''t01'' 1 new_events)))))"
    by simp
  have first: "fst (onDealSectorCommitted ''t01'' 1 new_events) = 0"
    by (simp add: onDealSectorCommitted_def new_events_def)
  from ok first yes no 1 2 show ?thesis by blast
qed

end
